theory Spec2Isabelle
  imports Complex_Main "HOL-Library.Monad_Syntax"
begin

section \<open>Energy manager: data model\<close>

text \<open>
  The repository holds the same rule engine twice: the native integration
  (\<^verbatim>\<open>custom_components/energy_manager/__init__.py\<close>, class
  \<^verbatim>\<open>EnergyManagerCoordinator\<close>) and the scheduler app
  (\<^verbatim>\<open>apps/energy_manager/energy_manager.py\<close>, class \<^verbatim>\<open>EnergyManager\<close>).
  Both are embedded below; the definitions of the app carry the prefix \<open>app_\<close>
  where the name would clash with the integration's. The script
  \<^verbatim>\<open>test_logic.py\<close> repeats the classifier and the rules of the integration
  for a run without a host and is not embedded a third time. Logging is left out.

  Numbers. Python's \<^verbatim>\<open>float\<close> and \<^verbatim>\<open>int\<close> readings and thresholds are
  embedded as \<^typ>\<open>real\<close>: comparisons are exact, and the rounding of the few
  arithmetic operations (\<^verbatim>\<open>/ 1000\<close>, \<^verbatim>\<open>* 0.2\<close>, a subtraction) and the
  IEEE special values are not represented. Timestamps (\<^verbatim>\<open>datetime\<close>) are
  integers counting microseconds, the resolution of \<^verbatim>\<open>datetime\<close> and
  \<^verbatim>\<open>timedelta\<close>, whose arithmetic is exact.

  Text. A \<^typ>\<open>string\<close> is a list of bytes; the non-ASCII characters of the
  source's literals are written as their UTF-8 bytes.
\<close>

subsection \<open>Configuration\<close>

text \<open>The numeric options of \<^verbatim>\<open>DEFAULT_CONFIG\<close> / \<^verbatim>\<open>CONFIG\<close>; the keys are
  literals of the source, so they form a closed enumeration.\<close>

datatype opt_key =
    battery_capacity_kwh
  | battery_min_soc
  | battery_max_soc
  | battery_reserve_evening
  | car_battery_capacity_kwh
  | car_max_charge_power_kw
  | car_min_soc_target
  | car_default_target_soc
  | pv_peak_power_kw
  | price_cheap_threshold
  | price_very_cheap_threshold
  | price_expensive_threshold
  | pv_surplus_for_car_charging
  | pv_surplus_for_battery
  | check_interval_minutes

text \<open>\<^verbatim>\<open>const.py\<close>: \<^verbatim>\<open>DEFAULT_CONFIG\<close>, its numeric entries.\<close>

fun DEFAULT_CONFIG :: "opt_key \<Rightarrow> real" where
  "DEFAULT_CONFIG battery_capacity_kwh = 10.0"
| "DEFAULT_CONFIG battery_min_soc = 10"
| "DEFAULT_CONFIG battery_max_soc = 95"
| "DEFAULT_CONFIG battery_reserve_evening = 30"
| "DEFAULT_CONFIG car_battery_capacity_kwh = 77.0"
| "DEFAULT_CONFIG car_max_charge_power_kw = 11.0"
| "DEFAULT_CONFIG car_min_soc_target = 20"
| "DEFAULT_CONFIG car_default_target_soc = 80"
| "DEFAULT_CONFIG pv_peak_power_kw = 10.0"
| "DEFAULT_CONFIG price_cheap_threshold = 15.0"
| "DEFAULT_CONFIG price_very_cheap_threshold = 8.0"
| "DEFAULT_CONFIG price_expensive_threshold = 30.0"
| "DEFAULT_CONFIG pv_surplus_for_car_charging = 3.0"
| "DEFAULT_CONFIG pv_surplus_for_battery = 1.0"
| "DEFAULT_CONFIG check_interval_minutes = 15"

text \<open>\<^verbatim>\<open>DEFAULT_CONFIG["entities"]\<close>: logical sensor name to entity id.\<close>

definition DEFAULT_entities :: "(string \<times> string) list" where
  "DEFAULT_entities =
    [(''pv_power'', ''sensor.pv_power''),
     (''pv_forecast_today'', ''sensor.solcast_pv_forecast_today''),
     (''pv_forecast_remaining'', ''sensor.solcast_forecast_remaining''),
     (''battery_soc'', ''sensor.battery_soc''),
     (''battery_power'', ''sensor.battery_power''),
     (''battery_charging_switch'', ''switch.battery_force_charge''),
     (''battery_mode'', ''select.battery_operating_mode''),
     (''car_soc'', ''sensor.car_battery_level''),
     (''car_charging_switch'', ''switch.car_charger''),
     (''car_charging_power'', ''sensor.car_charging_power''),
     (''car_connected'', ''binary_sensor.car_connected''),
     (''grid_power'', ''sensor.grid_power''),
     (''house_consumption'', ''sensor.house_consumption''),
     (''current_price'', ''sensor.tibber_current_price''),
     (''price_level'', ''sensor.tibber_price_level'')]"

definition DEFAULT_notify_service :: string where
  "DEFAULT_notify_service = ''notify.mobile_app_dein_smartphone''"

text \<open>The coordinator's \<^verbatim>\<open>self._cfg\<close>: the options the user set, the notify
  service if set, and the entity mapping \<^verbatim>\<open>self._entities\<close>.\<close>

record config =
  options :: "opt_key \<rightharpoonup> real"
  notify_service :: "string option"
  entities :: "string \<rightharpoonup> string"

text \<open>\<^verbatim>\<open>cfg.get(key, DEFAULT_CONFIG[key])\<close>.\<close>

definition cfg_get :: "config \<Rightarrow> opt_key \<Rightarrow> real" where
  "cfg_get cfg k = (case options cfg k of Some v \<Rightarrow> v | None \<Rightarrow> DEFAULT_CONFIG k)"

subsection \<open>The host and Python's builtins\<close>

text \<open>What one read of an entity from the host gives: the call raises, there is no
  such entity (\<^verbatim>\<open>None\<close>), or the entity's state string.\<close>

datatype host_read = Raises | NoState | State string

text \<open>Python's \<^verbatim>\<open>float(s)\<close> on a string is a parameter of the model: \<open>None\<close>
  stands for \<^verbatim>\<open>ValueError\<close>.\<close>

type_synonym py_float = "string \<Rightarrow> real option"

text \<open>The format specifications the f-strings use: \<^verbatim>\<open>{x:.nf}\<close> and plain
  \<^verbatim>\<open>{x}\<close>. The formatter itself is a parameter of the model.\<close>

datatype format_spec = Fixed nat | Plain

type_synonym py_format = "format_spec \<Rightarrow> real \<Rightarrow> string"

text \<open>Timestamps in microseconds; \<^verbatim>\<open>timedelta(hours=2)\<close>; \<^verbatim>\<open>datetime.hour\<close>.\<close>

type_synonym timestamp = int

definition timedelta_hours :: "int \<Rightarrow> int" where
  "timedelta_hours h = h * 3600000000"

definition hour_of :: "timestamp \<Rightarrow> int" where
  "hour_of t = (t div 3600000000) mod 24"

text \<open>The world around one process: the entity states, the successive values of
  \<^verbatim>\<open>datetime.now()\<close> (the \<open>n\<close>-th reading of the clock) and whether the
  \<open>n\<close>-th call of a host service returns (\<open>True\<close>) or raises (\<open>False\<close>).\<close>

record world =
  states :: "string \<Rightarrow> host_read"
  now_at :: "nat \<Rightarrow> timestamp"
  call_ok :: "nat \<Rightarrow> bool"

subsection \<open>System state and decisions\<close>

text \<open>The dictionary \<^verbatim>\<open>_get_system_state\<close> returns.\<close>

record system_state =
  pv_power_kw :: real
  pv_surplus_kw :: real
  pv_forecast_today_kwh :: real
  pv_forecast_remaining_kwh :: real
  pv_forecast_tomorrow_kwh :: real
  pv_forecast_next_hour_kwh :: real
  pv_forecast_d3_kwh :: real
  pv_forecast_d4_kwh :: real
  pv_forecast_d5_kwh :: real
  pv_forecast_d6_kwh :: real
  pv_forecast_d7_kwh :: real
  battery_soc :: real
  battery_power_kw :: real
  car_soc :: real
  car_connected :: bool
  car_charging_power_kw :: real
  grid_power_kw :: real
  house_consumption_kw :: real
  current_price_eur :: real
  price_level :: string
  hour :: int
  is_night :: bool
  is_morning :: bool

record decision =
  action :: string
  priority :: int
  reason :: string
  details :: "string option"
  notify :: bool

section \<open>Native integration: helpers\<close>

text \<open>\<^verbatim>\<open>_compute_price_level\<close>.\<close>

definition compute_price_level :: "config \<Rightarrow> real \<Rightarrow> string" where
  "compute_price_level cfg price =
    (let very_cheap = cfg_get cfg price_very_cheap_threshold;
         cheap = cfg_get cfg price_cheap_threshold;
         expensive = cfg_get cfg price_expensive_threshold
     in if price \<le> very_cheap then ''VERY_CHEAP''
        else if price \<le> cheap then ''CHEAP''
        else if price \<ge> expensive then ''EXPENSIVE''
        else ''NORMAL'')"

text \<open>\<^verbatim>\<open>_is_pv_producing_well\<close>.\<close>

definition is_pv_producing_well :: "config \<Rightarrow> system_state \<Rightarrow> bool" where
  "is_pv_producing_well cfg s \<longleftrightarrow> pv_power_kw s > cfg_get cfg pv_peak_power_kw * 0.2"

text \<open>\<^verbatim>\<open>_safe_float\<close>: \<open>None\<close> is an exception leaving the function (only the
  host's read can raise; \<^verbatim>\<open>ValueError\<close> of \<^verbatim>\<open>float\<close> is caught).\<close>

definition safe_float :: "py_float \<Rightarrow> world \<Rightarrow> string \<Rightarrow> real \<Rightarrow> real option" where
  "safe_float float_of w entity_id dflt =
    (case states w entity_id of
       Raises \<Rightarrow> None
     | NoState \<Rightarrow> Some dflt
     | State val \<Rightarrow>
         if val \<in> set [''unavailable'', ''unknown''] then Some dflt
         else (case float_of val of Some x \<Rightarrow> Some x | None \<Rightarrow> Some dflt))"

text \<open>\<^verbatim>\<open>_safe_bool\<close>.\<close>

definition safe_bool :: "world \<Rightarrow> string \<Rightarrow> bool option" where
  "safe_bool w entity_id =
    (case states w entity_id of
       Raises \<Rightarrow> None
     | NoState \<Rightarrow> Some False
     | State val \<Rightarrow> Some (val \<in> set [''on'', ''true'', ''True'', ''1'', ''home'']))"


section \<open>Native integration: state normalizer\<close>

text \<open>The coordinator's mutable state, and how far the process has consumed the
  world: \<^verbatim>\<open>self._last_notification\<close>, the number of clock readings made so
  far, and the host service calls attempted so far (the next one is call number
  \<open>length (service_calls st)\<close>).\<close>

datatype service_call =
    Async_call string string string string
  | Call_service string string string

record coordinator =
  last_notification :: "string \<rightharpoonup> timestamp"
  clock_reads :: nat
  service_calls :: "service_call list"

text \<open>\<^verbatim>\<open>self._safe_float(e[key])\<close>: a missing key is \<^verbatim>\<open>KeyError\<close>.\<close>

definition entity_float :: "py_float \<Rightarrow> world \<Rightarrow> config \<Rightarrow> string \<Rightarrow> real option" where
  "entity_float float_of w cfg key =
    (case entities cfg key of None \<Rightarrow> None | Some entity_id \<Rightarrow> safe_float float_of w entity_id 0.0)"

text \<open>\<^verbatim>\<open>self._safe_bool(e[key])\<close>.\<close>

definition entity_bool :: "world \<Rightarrow> config \<Rightarrow> string \<Rightarrow> bool option" where
  "entity_bool w cfg key =
    (case entities cfg key of None \<Rightarrow> None | Some entity_id \<Rightarrow> safe_bool w entity_id)"

text \<open>The readings of \<^verbatim>\<open>_get_system_state\<close>, in the order the source evaluates
  them; the three time fields are filled in by \<open>get_system_state\<close>. \<open>None\<close>:
  an exception was raised inside the \<^verbatim>\<open>try\<close>.\<close>

definition read_sensors :: "py_float \<Rightarrow> world \<Rightarrow> config \<Rightarrow> system_state option" where
  "read_sensors float_of w cfg =
    do {
      pv_power_w \<leftarrow> entity_float float_of w cfg ''pv_power'';
      house_consumption_w \<leftarrow> entity_float float_of w cfg ''house_consumption'';
      grid_power_w \<leftarrow> entity_float float_of w cfg ''grid_power'';
      let pv_surplus_w = pv_power_w - house_consumption_w;
      current_price \<leftarrow> entity_float float_of w cfg ''current_price'';
      let level = compute_price_level cfg current_price;
      forecast_today \<leftarrow> entity_float float_of w cfg ''pv_forecast_today'';
      forecast_remaining \<leftarrow> entity_float float_of w cfg ''pv_forecast_remaining'';
      forecast_tomorrow \<leftarrow> entity_float float_of w cfg ''pv_forecast_tomorrow'';
      forecast_next_hour \<leftarrow> entity_float float_of w cfg ''pv_forecast_next_hour'';
      forecast_d3 \<leftarrow> entity_float float_of w cfg ''pv_forecast_d3'';
      forecast_d4 \<leftarrow> entity_float float_of w cfg ''pv_forecast_d4'';
      forecast_d5 \<leftarrow> entity_float float_of w cfg ''pv_forecast_d5'';
      forecast_d6 \<leftarrow> entity_float float_of w cfg ''pv_forecast_d6'';
      forecast_d7 \<leftarrow> entity_float float_of w cfg ''pv_forecast_d7'';
      bat_soc \<leftarrow> entity_float float_of w cfg ''battery_soc'';
      bat_power_w \<leftarrow> entity_float float_of w cfg ''battery_power'';
      vehicle_soc \<leftarrow> entity_float float_of w cfg ''car_soc'';
      connected \<leftarrow> entity_bool w cfg ''car_connected'';
      charging_power_w \<leftarrow> entity_float float_of w cfg ''car_charging_power'';
      Some \<lparr>pv_power_kw = pv_power_w / 1000,
        pv_surplus_kw = pv_surplus_w / 1000,
        pv_forecast_today_kwh = forecast_today,
        pv_forecast_remaining_kwh = forecast_remaining,
        pv_forecast_tomorrow_kwh = forecast_tomorrow,
        pv_forecast_next_hour_kwh = forecast_next_hour,
        pv_forecast_d3_kwh = forecast_d3,
        pv_forecast_d4_kwh = forecast_d4,
        pv_forecast_d5_kwh = forecast_d5,
        pv_forecast_d6_kwh = forecast_d6,
        pv_forecast_d7_kwh = forecast_d7,
        battery_soc = bat_soc,
        battery_power_kw = bat_power_w / 1000,
        car_soc = vehicle_soc,
        car_connected = connected,
        car_charging_power_kw = charging_power_w / 1000,
        grid_power_kw = grid_power_w / 1000,
        house_consumption_kw = house_consumption_w / 1000,
        current_price_eur = current_price,
        price_level = level,
        hour = 0, is_night = False, is_morning = False\<rparr>
    }"

text \<open>\<^verbatim>\<open>_get_system_state\<close>. The time fields read the clock last: once for
  \<^verbatim>\<open>hour\<close>, once or twice for \<^verbatim>\<open>is_night\<close> (\<^verbatim>\<open>or\<close> evaluates its right
  operand only when the left one is false) and once for \<^verbatim>\<open>is_morning\<close>.
  The result \<open>None\<close> is the \<^verbatim>\<open>except Exception: return None\<close> branch.\<close>

definition get_system_state ::
  "py_float \<Rightarrow> world \<Rightarrow> config \<Rightarrow> coordinator \<Rightarrow> system_state option \<times> coordinator" where
  "get_system_state float_of w cfg st =
    (case read_sensors float_of w cfg of
       None \<Rightarrow> (None, st)
     | Some s \<Rightarrow>
        (let n = clock_reads st;
             h = hour_of (now_at w n);
             night_left = hour_of (now_at w (n + 1)) < 6;
             night = (if night_left then True else hour_of (now_at w (n + 2)) \<ge> 22);
             n' = (if night_left then n + 2 else n + 3);
             hm = hour_of (now_at w n');
             morning = (6 \<le> hm \<and> hm < 10)
         in (Some (s\<lparr>hour := h, is_night := night, is_morning := morning\<rparr>),
             st\<lparr>clock_reads := n' + 1\<rparr>)))"

section \<open>Native integration: rule evaluator\<close>

text \<open>UTF-8 bytes of the non-ASCII characters in the literals.\<close>

definition chr_Uuml :: string where "chr_Uuml = [CHR 0xC3, CHR 0x9C]"
definition chr_uuml :: string where "chr_uuml = [CHR 0xC3, CHR 0xBC]"
definition chr_arrow :: string where "chr_arrow = [CHR 0xE2, CHR 0x86, CHR 0x92]"
definition chr_euro :: string where "chr_euro = [CHR 0xE2, CHR 0x82, CHR 0xAC]"

text \<open>\<^verbatim>\<open>_make_decisions\<close>. The list is built by six conditional appends and then
  sorted by \<^verbatim>\<open>list.sort(key=...)\<close>, which is stable; \<^const>\<open>sort_key\<close> is the
  stable insertion sort.\<close>

definition make_decisions :: "py_format \<Rightarrow> config \<Rightarrow> system_state \<Rightarrow> decision list" where
  "make_decisions fmt cfg s =
    (let decisions = [];
         price = current_price_eur s;
         cheap = cfg_get cfg price_cheap_threshold;
         very_cheap = cfg_get cfg price_very_cheap_threshold;
         expensive = cfg_get cfg price_expensive_threshold;
         decisions =
           (if car_connected s
               \<and> car_soc s < cfg_get cfg car_default_target_soc
               \<and> pv_surplus_kw s \<ge> cfg_get cfg pv_surplus_for_car_charging
            then decisions @
              [\<lparr>action = ''car_charge_pv'', priority = 1,
                reason = ''PV-'' @ chr_Uuml @ ''berschuss'',
                details = Some (''PV-'' @ chr_Uuml @ ''berschuss: '' @ fmt (Fixed 1) (pv_surplus_kw s)
                   @ '' kW verf'' @ chr_uuml @ ''gbar.\<newline>Auto-Akku: '' @ fmt (Fixed 0) (car_soc s)
                   @ ''% '' @ chr_arrow @ '' Laden empfohlen!''),
                notify = True\<rparr>]
            else decisions);
         decisions =
           (if pv_surplus_kw s \<ge> cfg_get cfg pv_surplus_for_battery
               \<and> battery_soc s < cfg_get cfg battery_max_soc
               \<and> \<not> car_connected s
            then decisions @
              [\<lparr>action = ''battery_charge_pv'', priority = 1,
                reason = ''PV-'' @ chr_Uuml @ ''berschuss f'' @ chr_uuml @ ''r Speicher'',
                details = None,
                notify = False\<rparr>]
            else decisions);
         decisions =
           (if price \<le> very_cheap
               \<and> battery_soc s < cfg_get cfg battery_max_soc
               \<and> \<not> is_pv_producing_well cfg s
            then decisions @
              [\<lparr>action = ''battery_charge_grid'', priority = 2,
                reason = ''Sehr g'' @ chr_uuml @ ''nstiger Netzstrom'',
                details = Some (''Strompreis sehr g'' @ chr_uuml @ ''nstig: '' @ fmt (Fixed 3) price
                   @ '' '' @ chr_euro @ ''/kWh\<newline>Speicher ('' @ fmt (Fixed 0) (battery_soc s)
                   @ ''%) aus dem Netz laden empfohlen!''),
                notify = True\<rparr>]
            else decisions);
         decisions =
           (if car_connected s
               \<and> car_soc s < cfg_get cfg car_default_target_soc
               \<and> price \<le> cheap
               \<and> pv_surplus_kw s < cfg_get cfg pv_surplus_for_car_charging
            then decisions @
              [\<lparr>action = ''car_charge_cheap'', priority = 2,
                reason = ''G'' @ chr_uuml @ ''nstiger Netzstrom'',
                details = Some (''G'' @ chr_uuml @ ''nstiger Strom: '' @ fmt (Fixed 3) price
                   @ '' '' @ chr_euro @ ''/kWh\<newline>Auto-Akku: '' @ fmt (Fixed 0) (car_soc s)
                   @ ''% '' @ chr_arrow @ '' Jetzt laden empfohlen!''),
                notify = True\<rparr>]
            else decisions);
         decisions =
           (if car_connected s \<and> car_soc s < cfg_get cfg car_min_soc_target
            then decisions @
              [\<lparr>action = ''car_charge_emergency'', priority = 0,
                reason = ''Kritischer Auto-SOC'',
                details = Some (''Auto-Akku kritisch niedrig: '' @ fmt (Fixed 0) (car_soc s)
                   @ ''%!\<newline>Sofortiges Laden empfohlen (Mindest-SOC: ''
                   @ fmt Plain (cfg_get cfg car_min_soc_target) @ ''%)''),
                notify = True\<rparr>]
            else decisions);
         decisions =
           (if price \<ge> expensive \<and> battery_soc s > cfg_get cfg battery_reserve_evening
            then decisions @
              [\<lparr>action = ''stop_grid_consumption'', priority = 2,
                reason = ''Hoher Strompreis'',
                details = Some (''Strom teuer: '' @ fmt (Fixed 3) price
                   @ '' '' @ chr_euro @ ''/kWh\<newline>Speicher ('' @ fmt (Fixed 0) (battery_soc s)
                   @ ''%) statt Netzbezug nutzen empfohlen.''),
                notify = True\<rparr>]
            else decisions)
     in sort_key priority decisions)"


section \<open>Native integration: notification gate and orchestrator\<close>

text \<open>\<^verbatim>\<open>s.split(c, 1)\<close> and \<^verbatim>\<open>s.replace(c, c', 1)\<close> for one-character
  arguments.\<close>

definition split_once :: "char \<Rightarrow> string \<Rightarrow> string list" where
  "split_once c s =
    (if c \<in> set s then [takeWhile (\<lambda>x. x \<noteq> c) s, tl (dropWhile (\<lambda>x. x \<noteq> c) s)] else [s])"

definition replace_first :: "char \<Rightarrow> char \<Rightarrow> string \<Rightarrow> string" where
  "replace_first c c' s =
    (if c \<in> set s then takeWhile (\<lambda>x. x \<noteq> c) s @ c' # tl (dropWhile (\<lambda>x. x \<noteq> c) s) else s)"

text \<open>\<^verbatim>\<open>_send_smart_notification\<close>. The function returns nothing; what it did
  shows in the state: a send was attempted iff \<open>service_calls\<close> grew, and it
  succeeded iff the entry of \<open>last_notification\<close> was written. The
  \<^verbatim>\<open>except Exception\<close> branch only logs.\<close>

definition send_smart_notification ::
  "world \<Rightarrow> config \<Rightarrow> string \<Rightarrow> string \<Rightarrow> coordinator \<Rightarrow> coordinator" where
  "send_smart_notification w cfg action_key message st =
    (let now = now_at w (clock_reads st);
         st = st\<lparr>clock_reads := clock_reads st + 1\<rparr>;
         last = last_notification st action_key
     in if (case last of None \<Rightarrow> False | Some l \<Rightarrow> now - l < timedelta_hours 2) then st
        else
         (let service_name =
                (case notify_service cfg of Some n \<Rightarrow> n | None \<Rightarrow> DEFAULT_notify_service);
              parts = split_once CHR ''.'' service_name;
              domain = parts ! 0;
              service = (if length parts > 1 then parts ! 1 else parts ! 0);
              k = length (service_calls st);
              st = st\<lparr>service_calls :=
                     service_calls st @ [Async_call domain service message ''Energiemanager'']\<rparr>
          in if call_ok w k
             then st\<lparr>last_notification := (last_notification st)(action_key \<mapsto> now)\<rparr>
             else st))"

text \<open>The \<^verbatim>\<open>for\<close> loop of \<^verbatim>\<open>_execute_decisions\<close>: a decision is passed to
  the gate when \<^verbatim>\<open>notify\<close> and \<^verbatim>\<open>details\<close> are both truthy.\<close>

fun execute_loop :: "world \<Rightarrow> config \<Rightarrow> decision list \<Rightarrow> coordinator \<Rightarrow> coordinator" where
  "execute_loop w cfg [] st = st"
| "execute_loop w cfg (d # ds) st =
    execute_loop w cfg ds
      (case details d of
         Some m \<Rightarrow> if notify d \<and> m \<noteq> [] then send_smart_notification w cfg (action d) m st else st
       | None \<Rightarrow> st)"

text \<open>\<^verbatim>\<open>_execute_decisions\<close>.\<close>

definition execute_decisions ::
  "world \<Rightarrow> config \<Rightarrow> decision list \<Rightarrow> system_state \<Rightarrow> coordinator \<Rightarrow> coordinator" where
  "execute_decisions w cfg decisions system st =
    (if decisions = [] then st else execute_loop w cfg decisions st)"

text \<open>\<^verbatim>\<open>_async_update_data\<close>: \<open>Inl\<close> is the raised \<^verbatim>\<open>UpdateFailed\<close>.\<close>

datatype update_error = UpdateFailed string

definition async_update_data ::
  "py_float \<Rightarrow> py_format \<Rightarrow> world \<Rightarrow> config \<Rightarrow> coordinator
     \<Rightarrow> (update_error + system_state) \<times> coordinator" where
  "async_update_data float_of fmt w cfg st =
    (case get_system_state float_of w cfg st of
       (None, st) \<Rightarrow> (Inl (UpdateFailed ''Konnte Systemzustand nicht lesen''), st)
     | (Some system, st) \<Rightarrow>
         (let decisions = make_decisions fmt cfg system;
              st = execute_decisions w cfg decisions system st
          in (Inr system, st)))"

text \<open>\<^verbatim>\<open>_on_price_change\<close>. The event carries the new and the old state object
  (\<open>None\<close> when absent), each with its state string. \<open>RunTriggered\<close> is the
  call \<^verbatim>\<open>self.hass.async_create_task(self.async_refresh())\<close>; every other way
  out of the callback is \<open>NoRun\<close>.\<close>

record price_event =
  new_state :: "string option"
  old_state :: "string option"

datatype callback_outcome = NoRun | RunTriggered

definition on_price_change :: "py_float \<Rightarrow> price_event \<Rightarrow> callback_outcome" where
  "on_price_change float_of event =
    (case new_state event of
       None \<Rightarrow> NoRun
     | Some new_val \<Rightarrow>
        (let old_val = old_state event
         in if Some new_val = old_val then NoRun
            else (case float_of new_val of
                    None \<Rightarrow> NoRun
                  | Some new_price \<Rightarrow>
                     (case (if old_val \<notin> set [None, Some ''unavailable'', Some ''unknown'']
                            then (case float_of (the old_val) of
                                    None \<Rightarrow> Inl ()
                                  | Some x \<Rightarrow> Inr (Some x))
                            else Inr None) of
                        Inl _ \<Rightarrow> NoRun
                      | Inr old_price \<Rightarrow>
                         (case old_price of
                            None \<Rightarrow> NoRun
                          | Some old_p \<Rightarrow>
                              if \<bar>new_price - old_p\<bar> > 0.02 then RunTriggered else NoRun)))))"

section \<open>Scheduler app\<close>

text \<open>\<^verbatim>\<open>CONFIG\<close> of \<^verbatim>\<open>energy_manager.py\<close>: a module constant.\<close>

fun CONFIG :: "opt_key \<Rightarrow> real" where
  "CONFIG battery_capacity_kwh = 10.0"
| "CONFIG battery_min_soc = 10"
| "CONFIG battery_max_soc = 95"
| "CONFIG battery_reserve_evening = 30"
| "CONFIG car_battery_capacity_kwh = 77.0"
| "CONFIG car_max_charge_power_kw = 11.0"
| "CONFIG car_min_soc_target = 20"
| "CONFIG car_default_target_soc = 80"
| "CONFIG pv_peak_power_kw = 10.0"
| "CONFIG price_cheap_threshold = 15.0"
| "CONFIG price_very_cheap_threshold = 8.0"
| "CONFIG price_expensive_threshold = 30.0"
| "CONFIG pv_surplus_for_car_charging = 3.0"
| "CONFIG pv_surplus_for_battery = 1.0"
| "CONFIG check_interval_minutes = 15"

definition CONFIG_entities :: "string \<rightharpoonup> string" where
  "CONFIG_entities = map_of
    [(''pv_power'', ''sensor.pv_power''),
     (''pv_forecast_today'', ''sensor.solcast_pv_forecast_today''),
     (''pv_forecast_remaining'', ''sensor.solcast_forecast_remaining''),
     (''battery_soc'', ''sensor.battery_soc''),
     (''battery_power'', ''sensor.battery_power''),
     (''battery_charging_switch'', ''switch.battery_force_charge''),
     (''battery_mode'', ''select.battery_operating_mode''),
     (''car_soc'', ''sensor.car_battery_level''),
     (''car_charging_switch'', ''switch.car_charger''),
     (''car_charging_power'', ''sensor.car_charging_power''),
     (''car_connected'', ''binary_sensor.car_connected''),
     (''grid_power'', ''sensor.grid_power''),
     (''house_consumption'', ''sensor.house_consumption''),
     (''current_price'', ''sensor.tibber_current_price''),
     (''price_level'', ''sensor.tibber_price_level'')]"

definition CONFIG_notify_service :: string where
  "CONFIG_notify_service = ''notify.mobile_app_dein_smartphone''"

text \<open>The dictionary the app's \<^verbatim>\<open>get_system_state\<close> returns.\<close>

record app_system_state =
  app_pv_power_kw :: real
  app_pv_surplus_kw :: real
  app_pv_forecast_today_kwh :: real
  app_pv_forecast_remaining_kwh :: real
  app_battery_soc :: real
  app_battery_power_kw :: real
  app_car_soc :: real
  app_car_connected :: bool
  app_car_charging_power_kw :: real
  app_grid_power_kw :: real
  app_house_consumption_kw :: real
  app_current_price_ct :: real
  app_price_level :: string
  app_hour :: int
  app_is_night :: bool
  app_is_morning :: bool

text \<open>\<^verbatim>\<open>self.state\<close>: the three hysteresis flags, \<^verbatim>\<open>last_notification\<close> and
  \<^verbatim>\<open>last_decision\<close> (time, actions, and the snapshot \<^verbatim>\<open>pv_kw\<close>,
  \<^verbatim>\<open>battery_soc\<close>, \<^verbatim>\<open>car_soc\<close>, \<^verbatim>\<open>price_ct\<close>), with the clock readings
  and service calls made so far.\<close>

datatype last_decision = Last_decision timestamp "string list" real real real real

record app_state = coordinator +
  car_charging_pv :: bool
  car_charging_cheap :: bool
  battery_force_charging :: bool
  last_decision :: "last_decision option"

text \<open>The local functions \<^verbatim>\<open>safe_float\<close> and \<^verbatim>\<open>safe_bool\<close> of the app's
  \<^verbatim>\<open>get_system_state\<close>; \<^verbatim>\<open>self.get_state\<close> gives \<^verbatim>\<open>None\<close> or the state
  string.\<close>

definition app_safe_float :: "py_float \<Rightarrow> world \<Rightarrow> string \<Rightarrow> real \<Rightarrow> real option" where
  "app_safe_float float_of w entity_id dflt =
    (case states w entity_id of
       Raises \<Rightarrow> None
     | NoState \<Rightarrow> Some dflt
     | State val \<Rightarrow>
         if val \<in> set [''unavailable'', ''unknown''] then Some dflt
         else (case float_of val of Some x \<Rightarrow> Some x | None \<Rightarrow> Some dflt))"

definition app_safe_bool :: "world \<Rightarrow> string \<Rightarrow> bool option" where
  "app_safe_bool w entity_id =
    (case states w entity_id of
       Raises \<Rightarrow> None
     | NoState \<Rightarrow> Some False
     | State val \<Rightarrow> Some (val \<in> set [''on'', ''true'', ''True'', ''1'', ''home'']))"

definition app_entity_float :: "py_float \<Rightarrow> world \<Rightarrow> string \<Rightarrow> real option" where
  "app_entity_float float_of w key =
    (case CONFIG_entities key of None \<Rightarrow> None | Some entity_id \<Rightarrow> app_safe_float float_of w entity_id 0.0)"

text \<open>\<^verbatim>\<open>self.get_state(e["price_level"]) or "NORMAL"\<close>.\<close>

definition app_read_price_level :: "world \<Rightarrow> string option" where
  "app_read_price_level w =
    (case CONFIG_entities ''price_level'' of
       None \<Rightarrow> None
     | Some entity_id \<Rightarrow>
        (case states w entity_id of
           Raises \<Rightarrow> None
         | NoState \<Rightarrow> Some ''NORMAL''
         | State val \<Rightarrow> Some (if val = [] then ''NORMAL'' else val)))"

definition app_read_sensors :: "py_float \<Rightarrow> world \<Rightarrow> app_system_state option" where
  "app_read_sensors float_of w =
    do {
      pv_power_w \<leftarrow> app_entity_float float_of w ''pv_power'';
      house_consumption_w \<leftarrow> app_entity_float float_of w ''house_consumption'';
      grid_power_w \<leftarrow> app_entity_float float_of w ''grid_power'';
      let pv_surplus_w = pv_power_w - house_consumption_w;
      forecast_today \<leftarrow> app_entity_float float_of w ''pv_forecast_today'';
      forecast_remaining \<leftarrow> app_entity_float float_of w ''pv_forecast_remaining'';
      bat_soc \<leftarrow> app_entity_float float_of w ''battery_soc'';
      bat_power_w \<leftarrow> app_entity_float float_of w ''battery_power'';
      vehicle_soc \<leftarrow> app_entity_float float_of w ''car_soc'';
      connected \<leftarrow>
        (case CONFIG_entities ''car_connected'' of
           None \<Rightarrow> None | Some entity_id \<Rightarrow> app_safe_bool w entity_id);
      charging_power_w \<leftarrow> app_entity_float float_of w ''car_charging_power'';
      price_ct \<leftarrow> app_entity_float float_of w ''current_price'';
      level \<leftarrow> app_read_price_level w;
      Some \<lparr>app_pv_power_kw = pv_power_w / 1000,
        app_pv_surplus_kw = pv_surplus_w / 1000,
        app_pv_forecast_today_kwh = forecast_today,
        app_pv_forecast_remaining_kwh = forecast_remaining,
        app_battery_soc = bat_soc,
        app_battery_power_kw = bat_power_w / 1000,
        app_car_soc = vehicle_soc,
        app_car_connected = connected,
        app_car_charging_power_kw = charging_power_w / 1000,
        app_grid_power_kw = grid_power_w / 1000,
        app_house_consumption_kw = house_consumption_w / 1000,
        app_current_price_ct = price_ct,
        app_price_level = level,
        app_hour = 0, app_is_night = False, app_is_morning = False\<rparr>
    }"

text \<open>The app's \<^verbatim>\<open>get_system_state\<close>.\<close>

definition app_get_system_state ::
  "py_float \<Rightarrow> world \<Rightarrow> app_state \<Rightarrow> app_system_state option \<times> app_state" where
  "app_get_system_state float_of w st =
    (case app_read_sensors float_of w of
       None \<Rightarrow> (None, st)
     | Some s \<Rightarrow>
        (let n = clock_reads st;
             h = hour_of (now_at w n);
             night_left = hour_of (now_at w (n + 1)) < 6;
             night = (if night_left then True else hour_of (now_at w (n + 2)) \<ge> 22);
             n' = (if night_left then n + 2 else n + 3);
             hm = hour_of (now_at w n');
             morning = (6 \<le> hm \<and> hm < 10)
         in (Some (s\<lparr>app_hour := h, app_is_night := night, app_is_morning := morning\<rparr>),
             st\<lparr>clock_reads := n' + 1\<rparr>)))"


text \<open>UTF-8 bytes of the symbols in the app's literals.\<close>

definition chr_sun :: string where
  "chr_sun = [CHR 0xE2, CHR 0x98, CHR 0x80, CHR 0xEF, CHR 0xB8, CHR 0x8F]"
definition chr_money :: string where "chr_money = [CHR 0xF0, CHR 0x9F, CHR 0x92, CHR 0xB0]"
definition chr_bulb :: string where "chr_bulb = [CHR 0xF0, CHR 0x9F, CHR 0x92, CHR 0xA1]"
definition chr_warning :: string where
  "chr_warning = [CHR 0xE2, CHR 0x9A, CHR 0xA0, CHR 0xEF, CHR 0xB8, CHR 0x8F]"
definition chr_red :: string where "chr_red = [CHR 0xF0, CHR 0x9F, CHR 0x94, CHR 0xB4]"
definition chr_bolt :: string where "chr_bolt = [CHR 0xE2, CHR 0x9A, CHR 0xA1]"

text \<open>The app's \<^verbatim>\<open>_is_pv_producing_well\<close> and \<^verbatim>\<open>make_decisions\<close>.\<close>

definition app_is_pv_producing_well :: "app_system_state \<Rightarrow> bool" where
  "app_is_pv_producing_well s \<longleftrightarrow> app_pv_power_kw s > CONFIG pv_peak_power_kw * 0.2"

definition app_make_decisions :: "py_format \<Rightarrow> app_system_state \<Rightarrow> decision list" where
  "app_make_decisions fmt s =
    (let decisions = [];
         price = app_current_price_ct s;
         cheap = CONFIG price_cheap_threshold;
         very_cheap = CONFIG price_very_cheap_threshold;
         expensive = CONFIG price_expensive_threshold;
         decisions =
           (if app_car_connected s
               \<and> app_car_soc s < CONFIG car_default_target_soc
               \<and> app_pv_surplus_kw s \<ge> CONFIG pv_surplus_for_car_charging
            then decisions @
              [\<lparr>action = ''car_charge_pv'', priority = 1,
                reason = ''PV-'' @ chr_Uuml @ ''berschuss'',
                details = Some (chr_sun @ '' PV-'' @ chr_Uuml @ ''berschuss: ''
                   @ fmt (Fixed 1) (app_pv_surplus_kw s)
                   @ '' kW verf'' @ chr_uuml @ ''gbar.\<newline>Auto-Akku: '' @ fmt (Fixed 0) (app_car_soc s)
                   @ ''% '' @ chr_arrow @ '' Laden empfohlen!''),
                notify = True\<rparr>]
            else decisions);
         decisions =
           (if app_pv_surplus_kw s \<ge> CONFIG pv_surplus_for_battery
               \<and> app_battery_soc s < CONFIG battery_max_soc
               \<and> \<not> app_car_connected s
            then decisions @
              [\<lparr>action = ''battery_charge_pv'', priority = 1,
                reason = ''PV-'' @ chr_Uuml @ ''berschuss f'' @ chr_uuml @ ''r Speicher'',
                details = None,
                notify = False\<rparr>]
            else decisions);
         decisions =
           (if price \<le> very_cheap
               \<and> app_battery_soc s < CONFIG battery_max_soc
               \<and> \<not> app_is_pv_producing_well s
            then decisions @
              [\<lparr>action = ''battery_charge_grid'', priority = 2,
                reason = ''Sehr g'' @ chr_uuml @ ''nstiger Netzstrom'',
                details = Some (chr_money @ '' Strompreis sehr g'' @ chr_uuml @ ''nstig: ''
                   @ fmt (Fixed 1) price
                   @ '' Ct/kWh\<newline>Speicher ('' @ fmt (Fixed 0) (app_battery_soc s)
                   @ ''%) aus dem Netz laden empfohlen!''),
                notify = True\<rparr>]
            else decisions);
         decisions =
           (if app_car_connected s
               \<and> app_car_soc s < CONFIG car_default_target_soc
               \<and> price \<le> cheap
               \<and> app_pv_surplus_kw s < CONFIG pv_surplus_for_car_charging
            then decisions @
              [\<lparr>action = ''car_charge_cheap'', priority = 2,
                reason = ''G'' @ chr_uuml @ ''nstiger Netzstrom'',
                details = Some (chr_bulb @ '' G'' @ chr_uuml @ ''nstiger Strom: '' @ fmt (Fixed 1) price
                   @ '' Ct/kWh\<newline>Auto-Akku: '' @ fmt (Fixed 0) (app_car_soc s)
                   @ ''% '' @ chr_arrow @ '' Jetzt laden empfohlen!''),
                notify = True\<rparr>]
            else decisions);
         decisions =
           (if app_car_connected s \<and> app_car_soc s < CONFIG car_min_soc_target
            then decisions @
              [\<lparr>action = ''car_charge_emergency'', priority = 0,
                reason = ''Kritischer Auto-SOC'',
                details = Some (chr_warning @ '' Auto-Akku kritisch niedrig: ''
                   @ fmt (Fixed 0) (app_car_soc s)
                   @ ''%!\<newline>Sofortiges Laden empfohlen (Mindest-SOC: ''
                   @ fmt Plain (CONFIG car_min_soc_target) @ ''%)''),
                notify = True\<rparr>]
            else decisions);
         decisions =
           (if price \<ge> expensive \<and> app_battery_soc s > CONFIG battery_reserve_evening
            then decisions @
              [\<lparr>action = ''stop_grid_consumption'', priority = 2,
                reason = ''Hoher Strompreis'',
                details = Some (chr_red @ '' Strom teuer: '' @ fmt (Fixed 1) price
                   @ '' Ct/kWh\<newline>Speicher ('' @ fmt (Fixed 0) (app_battery_soc s)
                   @ ''%) statt Netzbezug nutzen empfohlen.''),
                notify = True\<rparr>]
            else decisions)
     in sort_key priority decisions)"

text \<open>The app's \<^verbatim>\<open>send_smart_notification\<close>.\<close>

definition app_send_smart_notification ::
  "world \<Rightarrow> string \<Rightarrow> string \<Rightarrow> app_state \<Rightarrow> app_state" where
  "app_send_smart_notification w action_key message st =
    (let now = now_at w (clock_reads st);
         st = st\<lparr>clock_reads := clock_reads st + 1\<rparr>;
         last = last_notification st action_key
     in if (case last of None \<Rightarrow> False | Some l \<Rightarrow> now - l < timedelta_hours 2) then st
        else
         (let k = length (service_calls st);
              st = st\<lparr>service_calls :=
                     service_calls st @
                       [Call_service (replace_first CHR ''.'' CHR ''/'' CONFIG_notify_service)
                          message (chr_bolt @ '' Energiemanager'')]\<rparr>
          in if call_ok w k
             then st\<lparr>last_notification := (last_notification st)(action_key \<mapsto> now)\<rparr>
             else st))"

text \<open>The app's \<^verbatim>\<open>execute_decisions\<close>: the loop, then the summary in
  \<^verbatim>\<open>last_decision\<close> (one more clock reading).\<close>

fun app_execute_loop :: "world \<Rightarrow> decision list \<Rightarrow> app_state \<Rightarrow> app_state" where
  "app_execute_loop w [] st = st"
| "app_execute_loop w (d # ds) st =
    app_execute_loop w ds
      (case details d of
         Some m \<Rightarrow> if notify d \<and> m \<noteq> [] then app_send_smart_notification w (action d) m st else st
       | None \<Rightarrow> st)"

definition app_execute_decisions ::
  "world \<Rightarrow> decision list \<Rightarrow> app_system_state \<Rightarrow> app_state \<Rightarrow> app_state" where
  "app_execute_decisions w decisions system st =
    (if decisions = [] then st
     else
      (let st = app_execute_loop w decisions st;
           now = now_at w (clock_reads st)
       in st\<lparr>clock_reads := clock_reads st + 1,
             last_decision := Some (Last_decision now (map action decisions)
               (app_pv_power_kw system) (app_battery_soc system) (app_car_soc system)
               (app_current_price_ct system))\<rparr>))"

text \<open>\<^verbatim>\<open>run_energy_manager\<close>.\<close>

definition run_energy_manager :: "py_float \<Rightarrow> py_format \<Rightarrow> world \<Rightarrow> app_state \<Rightarrow> app_state" where
  "run_energy_manager float_of fmt w st =
    (case app_get_system_state float_of w st of
       (None, st) \<Rightarrow> st
     | (Some system, st) \<Rightarrow>
         (let decisions = app_make_decisions fmt system
          in app_execute_decisions w decisions system st))"

text \<open>The app's \<^verbatim>\<open>on_price_change(entity, attribute, old, new, kwargs)\<close>; \<open>old\<close>
  and \<open>new\<close> are state strings or \<^verbatim>\<open>None\<close>. \<^verbatim>\<open>float(None)\<close> raises
  \<^verbatim>\<open>TypeError\<close>, a non-numeric string \<^verbatim>\<open>ValueError\<close>; both are caught.
  \<^verbatim>\<open>if old_price and ...\<close> tests the truth value of \<^verbatim>\<open>old_price\<close>: \<^verbatim>\<open>None\<close>
  and \<^verbatim>\<open>0.0\<close> are false. The run is made inside the callback.\<close>

definition app_on_price_change ::
  "py_float \<Rightarrow> py_format \<Rightarrow> world \<Rightarrow> string option \<Rightarrow> string option \<Rightarrow> app_state
     \<Rightarrow> callback_outcome \<times> app_state" where
  "app_on_price_change float_of fmt w old new st =
    (if old = new then (NoRun, st)
     else (case (case new of None \<Rightarrow> None | Some new_val \<Rightarrow> float_of new_val) of
             None \<Rightarrow> (NoRun, st)
           | Some new_price \<Rightarrow>
              (case (if old \<notin> set [None, Some ''unavailable'']
                     then (case float_of (the old) of
                             None \<Rightarrow> Inl ()
                           | Some x \<Rightarrow> Inr (Some x))
                     else Inr None) of
                 Inl _ \<Rightarrow> (NoRun, st)
               | Inr old_price \<Rightarrow>
                   if (case old_price of
                         None \<Rightarrow> False
                       | Some old_p \<Rightarrow> old_p \<noteq> 0 \<and> \<bar>new_price - old_p\<bar> > 2.0)
                   then (RunTriggered, run_energy_manager float_of fmt w st)
                   else (NoRun, st))))"

section \<open>The rule table of the specification\<close>

text \<open>The six rules in the order of the table of section 4.3 of the specification,
  by action identifier, and the position of an action in it.\<close>

definition rule_table :: "string list" where
  "rule_table = [''car_charge_emergency'', ''car_charge_pv'', ''battery_charge_pv'',
     ''battery_charge_grid'', ''car_charge_cheap'', ''stop_grid_consumption'']"

primrec position :: "'a \<Rightarrow> 'a list \<Rightarrow> nat" where
  "position x [] = 0"
| "position x (y # ys) = (if x = y then 0 else Suc (position x ys))"

text \<open>\<open>a\<close> may stand before \<open>b\<close> in the result: its priority is smaller, or the
  priorities are equal and \<open>a\<close>'s rule comes first in the table.\<close>

definition in_table_order :: "decision \<Rightarrow> decision \<Rightarrow> bool" where
  "in_table_order a b \<longleftrightarrow>
     priority a < priority b
     \<or> (priority a = priority b \<and> position (action a) rule_table < position (action b) rule_table)"

text \<open>The form every result of the evaluator has: the emergency decision if its
  condition holds, then the other five in a fixed order, each present or not.\<close>

definition rule_shape :: "bool \<Rightarrow> decision list \<Rightarrow> bool" where
  "rule_shape emergency ds \<longleftrightarrow>
    (\<exists>b1 b2 b3 b4 b6 d1 d2 d3 d4 d5 d6.
       action d1 = ''car_charge_pv'' \<and> priority d1 = 1 \<and>
       action d2 = ''battery_charge_pv'' \<and> priority d2 = 1 \<and>
       action d3 = ''battery_charge_grid'' \<and> priority d3 = 2 \<and>
       action d4 = ''car_charge_cheap'' \<and> priority d4 = 2 \<and>
       action d5 = ''car_charge_emergency'' \<and> priority d5 = 0 \<and>
       action d6 = ''stop_grid_consumption'' \<and> priority d6 = 2 \<and>
       ds = (if emergency then [d5] else []) @ (if b1 then [d1] else []) @ (if b2 then [d2] else [])
          @ (if b3 then [d3] else []) @ (if b4 then [d4] else []) @ (if b6 then [d6] else []))"

section \<open>Concrete inputs\<close>

text \<open>A formatter, the configuration of the specification's scenario (thresholds in
  currency per kWh, everything else left to \<^verbatim>\<open>DEFAULT_CONFIG\<close>) and its state (the
  values of \<^verbatim>\<open>MOCK_SENSORS\<close> in \<^verbatim>\<open>test_logic.py\<close>).\<close>

definition no_format :: py_format where
  "no_format = (\<lambda>spec x. [])"

definition scenario_cfg :: config where
  "scenario_cfg =
    \<lparr>options = [price_cheap_threshold \<mapsto> 0.15, price_very_cheap_threshold \<mapsto> 0.08,
        price_expensive_threshold \<mapsto> 0.30],
      notify_service = None,
      entities = map_of DEFAULT_entities\<rparr>"

definition scenario_state :: system_state where
  "scenario_state =
    \<lparr>pv_power_kw = 3.5, pv_surplus_kw = 3.5 - 0.8,
      pv_forecast_today_kwh = 18.0, pv_forecast_remaining_kwh = 8.0,
      pv_forecast_tomorrow_kwh = 0, pv_forecast_next_hour_kwh = 0,
      pv_forecast_d3_kwh = 0, pv_forecast_d4_kwh = 0, pv_forecast_d5_kwh = 0,
      pv_forecast_d6_kwh = 0, pv_forecast_d7_kwh = 0,
      battery_soc = 72, battery_power_kw = 0.5,
      car_soc = 45, car_connected = True, car_charging_power_kw = 0,
      grid_power_kw = 0.2, house_consumption_kw = 0.8,
      current_price_eur = 0.125, price_level = ''CHEAP'',
      hour = 8, is_night = False, is_morning = True\<rparr>"

text \<open>Variants: both cheap thresholds equal; a minimum vehicle charge of 50; a
  vehicle at 15 percent, for the integration and for the app.\<close>

definition tie_cfg :: config where
  "tie_cfg = scenario_cfg\<lparr>options := (options scenario_cfg)(price_very_cheap_threshold \<mapsto> 0.15)\<rparr>"

definition min50_cfg :: config where
  "min50_cfg = scenario_cfg\<lparr>options := (options scenario_cfg)(car_min_soc_target \<mapsto> 50)\<rparr>"

definition emergency_state :: system_state where
  "emergency_state = scenario_state\<lparr>car_soc := 15\<rparr>"

definition app_emergency_state :: app_system_state where
  "app_emergency_state =
    \<lparr>app_pv_power_kw = 3.5, app_pv_surplus_kw = 3.5 - 0.8,
      app_pv_forecast_today_kwh = 18.0, app_pv_forecast_remaining_kwh = 8.0,
      app_battery_soc = 72, app_battery_power_kw = 0.5,
      app_car_soc = 15, app_car_connected = True, app_car_charging_power_kw = 0,
      app_grid_power_kw = 0.2, app_house_consumption_kw = 0.8,
      app_current_price_ct = 12.5, app_price_level = ''NORMAL'',
      app_hour = 8, app_is_night = False, app_is_morning = True\<rparr>"

text \<open>A host in which the vehicle's connection sensor has the state \<open>v\<close> and no
  other entity exists.\<close>

definition literal_world :: "string \<Rightarrow> world" where
  "literal_world v = \<lparr>states = (\<lambda>entity_id.
       if entity_id = ''binary_sensor.car_connected'' then State v else NoState),
     now_at = (\<lambda>n. 0), call_ok = (\<lambda>n. True)\<rparr>"

section \<open>Notions used in the statements about the gate\<close>

text \<open>The condition under which the gate returns early: an entry exists for the
  action and less than the cooldown has passed since.\<close>

definition in_cooldown :: "('a coordinator_scheme) \<Rightarrow> string \<Rightarrow> timestamp \<Rightarrow> bool" where
  "in_cooldown st action_key now \<longleftrightarrow>
    (case last_notification st action_key of
       None \<Rightarrow> False
     | Some l \<Rightarrow> now - l < timedelta_hours 2)"

text \<open>The host service call the gate makes for a message, in the integration and in
  the app.\<close>

definition notify_call :: "config \<Rightarrow> string \<Rightarrow> service_call" where
  "notify_call cfg message =
    (let service_name = (case notify_service cfg of Some n \<Rightarrow> n | None \<Rightarrow> DEFAULT_notify_service);
         parts = split_once CHR ''.'' service_name
     in Async_call (parts ! 0) (if length parts > 1 then parts ! 1 else parts ! 0)
          message ''Energiemanager'')"

definition app_notify_call :: "string \<Rightarrow> service_call" where
  "app_notify_call message =
    Call_service (replace_first CHR ''.'' CHR ''/'' CONFIG_notify_service)
      message (chr_bolt @ '' Energiemanager'')"

text \<open>The test of the executor's loop: \<^verbatim>\<open>notify\<close> and \<^verbatim>\<open>details\<close> both truthy.\<close>

definition notify_eligible :: "decision \<Rightarrow> bool" where
  "notify_eligible d \<longleftrightarrow> notify d \<and> (case details d of None \<Rightarrow> False | Some m \<Rightarrow> m \<noteq> [])"

text \<open>Worlds with a given clock and given outcomes of the service calls; the state of
  a process that has just started; a clock that advances by \<open>h\<close> hours at every
  reading; two decisions that ask for a notification.\<close>

definition gate_world :: "(nat \<Rightarrow> timestamp) \<Rightarrow> (nat \<Rightarrow> bool) \<Rightarrow> world" where
  "gate_world clock ok = \<lparr>states = (\<lambda>entity_id. NoState), now_at = clock, call_ok = ok\<rparr>"

definition every_hours :: "int \<Rightarrow> nat \<Rightarrow> timestamp" where
  "every_hours h n = int n * timedelta_hours h"

text \<open>A clock that reads one hour at the first reading and advances by three hours
  at every further one.\<close>

definition later_clock :: "nat \<Rightarrow> timestamp" where
  "later_clock n = timedelta_hours 1 + int n * timedelta_hours 3"

definition fresh_coordinator :: coordinator where
  "fresh_coordinator = \<lparr>last_notification = Map.empty, clock_reads = 0, service_calls = []\<rparr>"

definition fresh_app :: app_state where
  "fresh_app = \<lparr>last_notification = Map.empty, clock_reads = 0, service_calls = [],
     car_charging_pv = False, car_charging_cheap = False, battery_force_charging = False,
     last_decision = None\<rparr>"

definition demo_emergency :: decision where
  "demo_emergency = \<lparr>action = ''car_charge_emergency'', priority = 0,
     reason = ''Kritischer Auto-SOC'', details = Some ''Auto-Akku kritisch niedrig'', notify = True\<rparr>"

definition demo_cheap :: decision where
  "demo_cheap = \<lparr>action = ''car_charge_cheap'', priority = 2,
     reason = ''Netzstrom'', details = Some ''Jetzt laden empfohlen'', notify = True\<rparr>"

section \<open>Notions used in the statements about the normalizer and the price event\<close>

text \<open>The logical sensor names the two normalizers read, in the order of the reads.\<close>

definition sensor_keys :: "string list" where
  "sensor_keys = [''pv_power'', ''house_consumption'', ''grid_power'', ''current_price'',
     ''pv_forecast_today'', ''pv_forecast_remaining'', ''pv_forecast_tomorrow'',
     ''pv_forecast_next_hour'', ''pv_forecast_d3'', ''pv_forecast_d4'', ''pv_forecast_d5'',
     ''pv_forecast_d6'', ''pv_forecast_d7'', ''battery_soc'', ''battery_power'', ''car_soc'',
     ''car_connected'', ''car_charging_power'']"

definition app_sensor_keys :: "string list" where
  "app_sensor_keys = [''pv_power'', ''house_consumption'', ''grid_power'',
     ''pv_forecast_today'', ''pv_forecast_remaining'', ''battery_soc'', ''battery_power'',
     ''car_soc'', ''car_connected'', ''car_charging_power'', ''current_price'', ''price_level'']"

text \<open>Reading the sensor \<open>key\<close> raises: the entity mapping has no such key
  (\<^verbatim>\<open>KeyError\<close>), or the host's read of the entity raises.\<close>

definition read_raises :: "(string \<rightharpoonup> string) \<Rightarrow> world \<Rightarrow> string \<Rightarrow> bool" where
  "read_raises ents w key \<longleftrightarrow>
    (case ents key of None \<Rightarrow> True | Some entity_id \<Rightarrow> states w entity_id = Raises)"

text \<open>A host whose read of \<^verbatim>\<open>sensor.pv_power\<close> raises.\<close>

definition broken_world :: world where
  "broken_world = \<lparr>states = (\<lambda>entity_id.
       if entity_id = ''sensor.pv_power'' then Raises else State ''1''),
     now_at = (\<lambda>n. 0), call_ok = (\<lambda>n. True)\<rparr>"

text \<open>\<^verbatim>\<open>float\<close> on the two literals of the price event below; every other
  string is rejected.\<close>

definition literal_float :: py_float where
  "literal_float = map_of [(''0.0'', 0), (''5.0'', 5)]"

section \<open>Rule evaluator: order of the result\<close>

lemma if_append_single: "(if c then xs @ [d] else xs) = xs @ (if c then [d] else [])"
  by simp

lemma sort_six:
  assumes "priority d1 = 1" "priority d2 = 1" "priority d3 = 2" "priority d4 = 2"
    "priority d5 = 0" "priority d6 = 2"
  shows "sort_key priority
      ((if b1 then [d1] else []) @ (if b2 then [d2] else []) @ (if b3 then [d3] else [])
        @ (if b4 then [d4] else []) @ (if b5 then [d5] else []) @ (if b6 then [d6] else []))
    = (if b5 then [d5] else []) @ (if b1 then [d1] else []) @ (if b2 then [d2] else [])
        @ (if b3 then [d3] else []) @ (if b4 then [d4] else []) @ (if b6 then [d6] else [])"
  using assms by (cases b1; cases b2; cases b3; cases b4; cases b5; cases b6) simp_all

lemma make_decisions_shape:
  "rule_shape (car_connected s \<and> car_soc s < cfg_get cfg car_min_soc_target)
     (make_decisions fmt cfg s)"
  unfolding rule_shape_def make_decisions_def Let_def if_append_single append_Nil append_assoc
  apply (intro exI conjI)
  prefer 13
             apply (rule sort_six)
  apply simp_all
  done

lemma app_make_decisions_shape:
  "rule_shape (app_car_connected s \<and> app_car_soc s < CONFIG car_min_soc_target)
     (app_make_decisions fmt s)"
  unfolding rule_shape_def app_make_decisions_def Let_def if_append_single append_Nil append_assoc
  apply (intro exI conjI)
  prefer 13
             apply (rule sort_six)
  apply simp_all
  done

lemma rule_shape_sorted: "rule_shape e ds \<Longrightarrow> sorted (map priority ds)"
  unfolding rule_shape_def
  apply (elim exE conjE)
  subgoal for b1 b2 b3 b4 b6
    by (cases e; cases b1; cases b2; cases b3; cases b4; cases b6) simp_all
  done

lemma rule_shape_table_order: "rule_shape e ds \<Longrightarrow> sorted_wrt in_table_order ds"
  unfolding rule_shape_def
  apply (elim exE conjE)
  subgoal for b1 b2 b3 b4 b6
    by (cases e; cases b1; cases b2; cases b3; cases b4; cases b6)
       (simp_all add: in_table_order_def rule_table_def)
  done

text \<open>Claim C1. For every state and configuration the list returned by
  \<^verbatim>\<open>_make_decisions\<close> (and by the app's \<^verbatim>\<open>make_decisions\<close>) is sorted by
  non-decreasing priority, and of two decisions with equal priority the one whose rule
  comes first in the rule table stands first: \<^verbatim>\<open>car_charge_pv\<close> before
  \<^verbatim>\<open>battery_charge_pv\<close>; \<^verbatim>\<open>battery_charge_grid\<close> before \<^verbatim>\<open>car_charge_cheap\<close>
  before \<^verbatim>\<open>stop_grid_consumption\<close>.\<close>

theorem make_decisions_sorted_table_order:
  "sorted (map priority (make_decisions fmt cfg s))
   \<and> sorted_wrt in_table_order (make_decisions fmt cfg s)
   \<and> sorted (map priority (app_make_decisions fmt s'))
   \<and> sorted_wrt in_table_order (app_make_decisions fmt s')"
  using make_decisions_shape [of s cfg fmt] app_make_decisions_shape [of s' fmt]
  by (simp add: rule_shape_sorted rule_shape_table_order)

text \<open>Claim C3. Every decision of priority 0 in the evaluator's result is
  \<^verbatim>\<open>car_charge_emergency\<close>, and whenever the vehicle is connected with a charge
  below \<^verbatim>\<open>car_min_soc_target\<close>, that decision is the first element of the result.\<close>

theorem emergency_first:
  "(\<forall>d \<in> set (make_decisions fmt cfg s). priority d = 0 \<longrightarrow> action d = ''car_charge_emergency'')
   \<and> (car_connected s \<and> car_soc s < cfg_get cfg car_min_soc_target \<longrightarrow>
        (\<exists>d ds. make_decisions fmt cfg s = d # ds
           \<and> action d = ''car_charge_emergency'' \<and> priority d = 0))
   \<and> (\<forall>d \<in> set (app_make_decisions fmt s'). priority d = 0 \<longrightarrow> action d = ''car_charge_emergency'')
   \<and> (app_car_connected s' \<and> app_car_soc s' < CONFIG car_min_soc_target \<longrightarrow>
        (\<exists>d ds. app_make_decisions fmt s' = d # ds
           \<and> action d = ''car_charge_emergency'' \<and> priority d = 0))"
proof -
  have zero: "\<forall>d \<in> set ds. priority d = 0 \<longrightarrow> action d = ''car_charge_emergency''"
    if "rule_shape e ds" for e ds
    using that unfolding rule_shape_def by (elim exE conjE) (auto split: if_splits)
  have first: "\<exists>d ds'. ds = d # ds' \<and> action d = ''car_charge_emergency'' \<and> priority d = 0"
    if "rule_shape True ds" for ds
    using that unfolding rule_shape_def by (elim exE conjE) simp
  show ?thesis
    using zero [OF make_decisions_shape [of s cfg fmt]]
      zero [OF app_make_decisions_shape [of s' fmt]]
      first [of "make_decisions fmt cfg s"] first [of "app_make_decisions fmt s'"]
      make_decisions_shape [of s cfg fmt] app_make_decisions_shape [of s' fmt]
    by auto
qed

theorem emergency_first_witness:
  "car_connected emergency_state
   \<and> car_soc emergency_state < cfg_get scenario_cfg car_min_soc_target
   \<and> (\<exists>d ds. make_decisions no_format scenario_cfg emergency_state = d # ds
         \<and> action d = ''car_charge_emergency'' \<and> priority d = 0)
   \<and> app_car_connected app_emergency_state
   \<and> app_car_soc app_emergency_state < CONFIG car_min_soc_target
   \<and> (\<exists>d ds. app_make_decisions no_format app_emergency_state = d # ds
         \<and> action d = ''car_charge_emergency'' \<and> priority d = 0)"
  using emergency_first [of no_format scenario_cfg emergency_state app_emergency_state]
  by (simp add: emergency_state_def scenario_state_def app_emergency_state_def
      cfg_get_def scenario_cfg_def)

text \<open>Claim C7, amended. In the scenario of the specification (PV power 3.5 kW, house
  consumption 0.8 kW, vehicle connected at 45 percent, target 80, surplus threshold
  3.0 kW, price 0.125, thresholds 0.15 / 0.08 / 0.30, battery at 72 percent, evening
  reserve 30) the evaluator returns exactly \<^verbatim>\<open>car_charge_cheap\<close> with priority 2,
  provided \<^verbatim>\<open>car_min_soc_target\<close> is at most 45.\<close>

theorem scenario_car_charge_cheap_only:
  assumes "pv_power_kw s = 3.5" and "house_consumption_kw s = 0.8"
    and "pv_surplus_kw s = pv_power_kw s - house_consumption_kw s"
    and "car_connected s" and "car_soc s = 45"
    and "cfg_get cfg car_default_target_soc = 80"
    and "cfg_get cfg pv_surplus_for_car_charging = 3.0"
    and "current_price_eur s = 0.125"
    and "cfg_get cfg price_cheap_threshold = 0.15"
    and "cfg_get cfg price_very_cheap_threshold = 0.08"
    and "cfg_get cfg price_expensive_threshold = 0.30"
    and "battery_soc s = 72" and "cfg_get cfg battery_reserve_evening = 30"
    and "cfg_get cfg car_min_soc_target \<le> 45"
  shows "map (\<lambda>d. (action d, priority d)) (make_decisions fmt cfg s) = [(''car_charge_cheap'', 2)]"
  using assms by (simp add: make_decisions_def)

theorem scenario_car_charge_cheap_only_witness:
  "map (\<lambda>d. (action d, priority d)) (make_decisions no_format scenario_cfg scenario_state)
     = [(''car_charge_cheap'', 2)]"
  by (rule scenario_car_charge_cheap_only)
     (simp_all add: scenario_state_def cfg_get_def scenario_cfg_def)

text \<open>Claim C7 as stated leaves \<^verbatim>\<open>car_min_soc_target\<close> to any value below the
  target charge of 80. With 50 the emergency rule fires as well.\<close>

theorem scenario_min_soc_counterexample:
  "pv_power_kw scenario_state = 3.5 \<and> house_consumption_kw scenario_state = 0.8
   \<and> pv_surplus_kw scenario_state = pv_power_kw scenario_state - house_consumption_kw scenario_state
   \<and> car_connected scenario_state \<and> car_soc scenario_state = 45
   \<and> cfg_get min50_cfg car_default_target_soc = 80
   \<and> cfg_get min50_cfg pv_surplus_for_car_charging = 3.0
   \<and> current_price_eur scenario_state = 0.125
   \<and> cfg_get min50_cfg price_cheap_threshold = 0.15
   \<and> cfg_get min50_cfg price_very_cheap_threshold = 0.08
   \<and> cfg_get min50_cfg price_expensive_threshold = 0.30
   \<and> battery_soc scenario_state = 72 \<and> cfg_get min50_cfg battery_reserve_evening = 30
   \<and> cfg_get min50_cfg price_very_cheap_threshold < cfg_get min50_cfg price_cheap_threshold
   \<and> cfg_get min50_cfg price_cheap_threshold < cfg_get min50_cfg price_expensive_threshold
   \<and> cfg_get min50_cfg car_min_soc_target < cfg_get min50_cfg car_default_target_soc
   \<and> map (\<lambda>d. (action d, priority d)) (make_decisions no_format min50_cfg scenario_state)
       = [(''car_charge_emergency'', 0), (''car_charge_cheap'', 2)]"
  by (simp add: make_decisions_def scenario_state_def cfg_get_def scenario_cfg_def min50_cfg_def
      is_pv_producing_well_def)

section \<open>Price classifier\<close>

text \<open>Claim C2. \<^verbatim>\<open>_compute_price_level\<close> returns \<^verbatim>\<open>VERY_CHEAP\<close> if the price is
  at most the very-cheap threshold; otherwise \<^verbatim>\<open>CHEAP\<close> if it is at most the cheap
  threshold; otherwise \<^verbatim>\<open>EXPENSIVE\<close> if it is at least the expensive threshold;
  otherwise \<^verbatim>\<open>NORMAL\<close>. When the two cheap thresholds are equal and the price equals
  them, the result is \<^verbatim>\<open>VERY_CHEAP\<close>.\<close>

theorem compute_price_level_order:
  "(p \<le> cfg_get cfg price_very_cheap_threshold \<longrightarrow> compute_price_level cfg p = ''VERY_CHEAP'')
   \<and> (\<not> p \<le> cfg_get cfg price_very_cheap_threshold \<and> p \<le> cfg_get cfg price_cheap_threshold
        \<longrightarrow> compute_price_level cfg p = ''CHEAP'')
   \<and> (\<not> p \<le> cfg_get cfg price_very_cheap_threshold \<and> \<not> p \<le> cfg_get cfg price_cheap_threshold
        \<and> p \<ge> cfg_get cfg price_expensive_threshold
        \<longrightarrow> compute_price_level cfg p = ''EXPENSIVE'')
   \<and> (\<not> p \<le> cfg_get cfg price_very_cheap_threshold \<and> \<not> p \<le> cfg_get cfg price_cheap_threshold
        \<and> \<not> p \<ge> cfg_get cfg price_expensive_threshold
        \<longrightarrow> compute_price_level cfg p = ''NORMAL'')
   \<and> (cfg_get cfg price_very_cheap_threshold = cfg_get cfg price_cheap_threshold
        \<and> p = cfg_get cfg price_cheap_threshold
        \<longrightarrow> compute_price_level cfg p = ''VERY_CHEAP'')"
  by (simp add: compute_price_level_def)

theorem compute_price_level_order_witness:
  "compute_price_level scenario_cfg 0.08 = ''VERY_CHEAP''
   \<and> compute_price_level scenario_cfg 0.125 = ''CHEAP''
   \<and> compute_price_level scenario_cfg 0.30 = ''EXPENSIVE''
   \<and> compute_price_level scenario_cfg 0.2 = ''NORMAL''
   \<and> cfg_get tie_cfg price_very_cheap_threshold = cfg_get tie_cfg price_cheap_threshold
   \<and> compute_price_level tie_cfg 0.15 = ''VERY_CHEAP''"
  using compute_price_level_order [of "0.08" scenario_cfg]
    compute_price_level_order [of "0.125" scenario_cfg]
    compute_price_level_order [of "0.30" scenario_cfg]
    compute_price_level_order [of "0.2" scenario_cfg]
    compute_price_level_order [of "0.15" tie_cfg]
  by (simp add: cfg_get_def scenario_cfg_def tie_cfg_def)

section \<open>Boolean readings\<close>

text \<open>Claim C8, amended. \<^verbatim>\<open>_safe_bool\<close> (and the app's \<^verbatim>\<open>safe_bool\<close>) is true
  exactly for the state strings \<^verbatim>\<open>on\<close>, \<^verbatim>\<open>true\<close>, \<^verbatim>\<open>True\<close>, \<^verbatim>\<open>1\<close> and
  \<^verbatim>\<open>home\<close>, compared as they are, and false for every other string and for a
  missing reading.\<close>

theorem safe_bool_literals:
  "(states w e = State v \<longrightarrow>
      safe_bool w e = Some (v = ''on'' \<or> v = ''true'' \<or> v = ''True'' \<or> v = ''1'' \<or> v = ''home'')
      \<and> app_safe_bool w e = Some (v = ''on'' \<or> v = ''true'' \<or> v = ''True'' \<or> v = ''1'' \<or> v = ''home''))
   \<and> (states w e = NoState \<longrightarrow> safe_bool w e = Some False \<and> app_safe_bool w e = Some False)"
  by (auto simp add: safe_bool_def app_safe_bool_def)

theorem safe_bool_literals_witness:
  "safe_bool (literal_world ''on'') ''binary_sensor.car_connected'' = Some True
   \<and> app_safe_bool (literal_world ''home'') ''binary_sensor.car_connected'' = Some True
   \<and> safe_bool (literal_world ''ON'') ''binary_sensor.car_connected'' = Some False
   \<and> app_safe_bool (literal_world ''off'') ''binary_sensor.car_connected'' = Some False
   \<and> safe_bool (literal_world ''on'') ''binary_sensor.other'' = Some False
   \<and> app_safe_bool (literal_world ''on'') ''binary_sensor.other'' = Some False"
  using safe_bool_literals [of "literal_world ''on''" "''binary_sensor.car_connected''" "''on''"]
    safe_bool_literals [of "literal_world ''home''" "''binary_sensor.car_connected''" "''home''"]
    safe_bool_literals [of "literal_world ''ON''" "''binary_sensor.car_connected''" "''ON''"]
    safe_bool_literals [of "literal_world ''off''" "''binary_sensor.car_connected''" "''off''"]
    safe_bool_literals [of "literal_world ''on''" "''binary_sensor.other''" "''x''"]
  by (simp add: literal_world_def)

text \<open>Claim C8 as stated admits four literals only. The capitalised \<^verbatim>\<open>True\<close> is
  none of them and is read as true.\<close>

theorem safe_bool_True_counterexample:
  "states (literal_world ''True'') ''binary_sensor.car_connected'' = State ''True''
   \<and> ''True'' \<notin> set [''on'', ''true'', ''1'', ''home'']
   \<and> safe_bool (literal_world ''True'') ''binary_sensor.car_connected'' = Some True
   \<and> app_safe_bool (literal_world ''True'') ''binary_sensor.car_connected'' = Some True"
  by (simp add: safe_bool_def app_safe_bool_def literal_world_def)

section \<open>Notification gate\<close>

lemma send_suppressed:
  "in_cooldown st k (now_at w (clock_reads st)) \<Longrightarrow>
   send_smart_notification w cfg k m st = st\<lparr>clock_reads := clock_reads st + 1\<rparr>"
  by (simp add: send_smart_notification_def in_cooldown_def Let_def)

lemma send_attempted:
  "\<not> in_cooldown st k (now_at w (clock_reads st)) \<Longrightarrow>
   send_smart_notification w cfg k m st =
     (if call_ok w (length (service_calls st))
      then st\<lparr>clock_reads := clock_reads st + 1,
              service_calls := service_calls st @ [notify_call cfg m],
              last_notification := (last_notification st)(k \<mapsto> now_at w (clock_reads st))\<rparr>
      else st\<lparr>clock_reads := clock_reads st + 1,
              service_calls := service_calls st @ [notify_call cfg m]\<rparr>)"
  by (simp add: send_smart_notification_def in_cooldown_def notify_call_def Let_def)

lemma app_send_suppressed:
  "in_cooldown st k (now_at w (clock_reads st)) \<Longrightarrow>
   app_send_smart_notification w k m st = st\<lparr>clock_reads := clock_reads st + 1\<rparr>"
  by (simp add: app_send_smart_notification_def in_cooldown_def Let_def)

lemma app_send_attempted:
  "\<not> in_cooldown st k (now_at w (clock_reads st)) \<Longrightarrow>
   app_send_smart_notification w k m st =
     (if call_ok w (length (service_calls st))
      then st\<lparr>clock_reads := clock_reads st + 1,
              service_calls := service_calls st @ [app_notify_call m],
              last_notification := (last_notification st)(k \<mapsto> now_at w (clock_reads st))\<rparr>
      else st\<lparr>clock_reads := clock_reads st + 1,
              service_calls := service_calls st @ [app_notify_call m]\<rparr>)"
  by (simp add: app_send_smart_notification_def in_cooldown_def app_notify_call_def Let_def)

lemma last_notification_after_attempt:
  "\<not> in_cooldown st k (now_at w (clock_reads st)) \<Longrightarrow>
   last_notification (send_smart_notification w cfg k m st) k =
     (if call_ok w (length (service_calls st)) then Some (now_at w (clock_reads st))
      else last_notification st k)"
  by (simp add: send_attempted)

lemma app_last_notification_after_attempt:
  "\<not> in_cooldown st k (now_at w (clock_reads st)) \<Longrightarrow>
   last_notification (app_send_smart_notification w k m st) k =
     (if call_ok w (length (service_calls st)) then Some (now_at w (clock_reads st))
      else last_notification st k)"
  by (simp add: app_send_attempted)

lemma later_in_cooldown:
  fixes st :: "'a coordinator_scheme" and st' :: "'b coordinator_scheme"
  assumes "last_notification st' k = Some t1" and "t2 - t1 < timedelta_hours 2"
  shows "in_cooldown st' k t2"
  using assms by (simp add: in_cooldown_def)

lemma later_not_in_cooldown:
  fixes st :: "'a coordinator_scheme" and st' :: "'b coordinator_scheme"
  assumes "\<not> in_cooldown st k t1"
    and "last_notification st' k = (if ok then Some t1 else last_notification st k)"
    and "t2 - t1 > timedelta_hours 2"
  shows "\<not> in_cooldown st' k t2"
  using assms by (auto simp add: in_cooldown_def timedelta_hours_def split: option.splits if_splits)

lemma send_clock_reads:
  "clock_reads (send_smart_notification w cfg k m st) = clock_reads st + 1"
  by (simp add: send_smart_notification_def Let_def)

lemma app_send_clock_reads:
  "clock_reads (app_send_smart_notification w k m st) = clock_reads st + 1"
  by (simp add: app_send_smart_notification_def Let_def)

lemma execute_loop_clock_reads:
  "clock_reads (execute_loop w cfg ds st) = clock_reads st + length (filter notify_eligible ds)"
  by (induction ds arbitrary: st)
     (auto simp add: notify_eligible_def send_clock_reads split: option.splits)

lemma app_execute_loop_clock_reads:
  "clock_reads (app_execute_loop w ds st) = clock_reads st + length (filter notify_eligible ds)"
  by (induction ds arbitrary: st)
     (auto simp add: notify_eligible_def app_send_clock_reads split: option.splits)

text \<open>Claim C4, amended. Two calls of the gate for one action identifier, the first
  made when the identifier is not inside the cooldown of an earlier send (no entry, or
  an entry at least two hours old), the second while the entry of the identifier is
  still the one the first call left. If the first send succeeded and less than two
  hours lie between the calls, the second call sends nothing and leaves the throttle
  state as it is (only the clock has been read once more). If more than two hours lie
  between them, both calls send, and each send that succeeds records its own timestamp
  for the identifier.\<close>

theorem gate_two_calls:
  fixes st st' :: coordinator and ast ast' :: app_state
  assumes "\<not> in_cooldown st k (now_at w (clock_reads st))"
    and "last_notification st' k = last_notification (send_smart_notification w cfg k m st) k"
    and "\<not> in_cooldown ast k (now_at w (clock_reads ast))"
    and "last_notification ast' k = last_notification (app_send_smart_notification w k m ast) k"
  shows "(call_ok w (length (service_calls st))
          \<and> now_at w (clock_reads st') - now_at w (clock_reads st) < timedelta_hours 2 \<longrightarrow>
            send_smart_notification w cfg k m' st' = st'\<lparr>clock_reads := clock_reads st' + 1\<rparr>)
      \<and> (now_at w (clock_reads st') - now_at w (clock_reads st) > timedelta_hours 2 \<longrightarrow>
            service_calls (send_smart_notification w cfg k m st)
              = service_calls st @ [notify_call cfg m]
          \<and> service_calls (send_smart_notification w cfg k m' st')
              = service_calls st' @ [notify_call cfg m']
          \<and> (call_ok w (length (service_calls st)) \<longrightarrow>
               last_notification (send_smart_notification w cfg k m st) k
                 = Some (now_at w (clock_reads st)))
          \<and> (call_ok w (length (service_calls st')) \<longrightarrow>
               last_notification (send_smart_notification w cfg k m' st') k
                 = Some (now_at w (clock_reads st'))))
      \<and> (call_ok w (length (service_calls ast))
          \<and> now_at w (clock_reads ast') - now_at w (clock_reads ast) < timedelta_hours 2 \<longrightarrow>
            app_send_smart_notification w k m' ast' = ast'\<lparr>clock_reads := clock_reads ast' + 1\<rparr>)
      \<and> (now_at w (clock_reads ast') - now_at w (clock_reads ast) > timedelta_hours 2 \<longrightarrow>
            service_calls (app_send_smart_notification w k m ast)
              = service_calls ast @ [app_notify_call m]
          \<and> service_calls (app_send_smart_notification w k m' ast')
              = service_calls ast' @ [app_notify_call m']
          \<and> (call_ok w (length (service_calls ast)) \<longrightarrow>
               last_notification (app_send_smart_notification w k m ast) k
                 = Some (now_at w (clock_reads ast)))
          \<and> (call_ok w (length (service_calls ast')) \<longrightarrow>
               last_notification (app_send_smart_notification w k m' ast') k
                 = Some (now_at w (clock_reads ast'))))"
proof -
  let ?t1 = "now_at w (clock_reads st)" and ?t2 = "now_at w (clock_reads st')"
  let ?a1 = "now_at w (clock_reads ast)" and ?a2 = "now_at w (clock_reads ast')"
  have e: "last_notification st' k =
      (if call_ok w (length (service_calls st)) then Some ?t1 else last_notification st k)"
    using assms(1,2) by (simp add: last_notification_after_attempt)
  have ae: "last_notification ast' k =
      (if call_ok w (length (service_calls ast)) then Some ?a1 else last_notification ast k)"
    using assms(3,4) by (simp add: app_last_notification_after_attempt)
  have p1: "send_smart_notification w cfg k m' st' = st'\<lparr>clock_reads := clock_reads st' + 1\<rparr>"
    if "call_ok w (length (service_calls st))" and "?t2 - ?t1 < timedelta_hours 2"
    using that e by (intro send_suppressed later_in_cooldown [where ?t1.0 = ?t1]) simp_all
  have ap1: "app_send_smart_notification w k m' ast' = ast'\<lparr>clock_reads := clock_reads ast' + 1\<rparr>"
    if "call_ok w (length (service_calls ast))" and "?a2 - ?a1 < timedelta_hours 2"
    using that ae by (intro app_send_suppressed later_in_cooldown [where ?t1.0 = ?a1]) simp_all
  have n2: "\<not> in_cooldown st' k ?t2" if "?t2 - ?t1 > timedelta_hours 2"
    using later_not_in_cooldown [OF assms(1) e that] .
  have an2: "\<not> in_cooldown ast' k ?a2" if "?a2 - ?a1 > timedelta_hours 2"
    using later_not_in_cooldown [OF assms(3) ae that] .
  show ?thesis
    using p1 ap1 n2 an2 assms(1,3)
    by (simp add: send_attempted app_send_attempted)
qed

theorem gate_two_calls_witness:
  "send_smart_notification (gate_world (every_hours 1) (\<lambda>n. True)) scenario_cfg
       ''car_charge_pv'' ''zweite Nachricht''
       (send_smart_notification (gate_world (every_hours 1) (\<lambda>n. True)) scenario_cfg
          ''car_charge_pv'' ''erste Nachricht'' fresh_coordinator)
     = (send_smart_notification (gate_world (every_hours 1) (\<lambda>n. True)) scenario_cfg
          ''car_charge_pv'' ''erste Nachricht'' fresh_coordinator)\<lparr>clock_reads := 2\<rparr>
   \<and> service_calls
       (send_smart_notification (gate_world (every_hours 3) (\<lambda>n. True)) scenario_cfg
          ''car_charge_pv'' ''zweite Nachricht''
          (send_smart_notification (gate_world (every_hours 3) (\<lambda>n. True)) scenario_cfg
             ''car_charge_pv'' ''erste Nachricht'' fresh_coordinator))
     = [notify_call scenario_cfg ''erste Nachricht'', notify_call scenario_cfg ''zweite Nachricht'']
   \<and> last_notification
       (send_smart_notification (gate_world (every_hours 3) (\<lambda>n. True)) scenario_cfg
          ''car_charge_pv'' ''zweite Nachricht''
          (send_smart_notification (gate_world (every_hours 3) (\<lambda>n. True)) scenario_cfg
             ''car_charge_pv'' ''erste Nachricht'' fresh_coordinator)) ''car_charge_pv''
     = Some (timedelta_hours 3)
   \<and> app_send_smart_notification (gate_world (every_hours 1) (\<lambda>n. True))
       ''car_charge_pv'' ''zweite Nachricht''
       (app_send_smart_notification (gate_world (every_hours 1) (\<lambda>n. True))
          ''car_charge_pv'' ''erste Nachricht'' fresh_app)
     = (app_send_smart_notification (gate_world (every_hours 1) (\<lambda>n. True))
          ''car_charge_pv'' ''erste Nachricht'' fresh_app)\<lparr>clock_reads := 2\<rparr>
   \<and> service_calls
       (app_send_smart_notification (gate_world (every_hours 3) (\<lambda>n. True))
          ''car_charge_pv'' ''zweite Nachricht''
          (app_send_smart_notification (gate_world (every_hours 3) (\<lambda>n. True))
             ''car_charge_pv'' ''erste Nachricht'' fresh_app))
     = [app_notify_call ''erste Nachricht'', app_notify_call ''zweite Nachricht'']"
proof -
  let ?w1 = "gate_world (every_hours 1) (\<lambda>n. True)"
  let ?w3 = "gate_world (every_hours 3) (\<lambda>n. True)"
  have fresh: "\<not> in_cooldown fresh_coordinator ''car_charge_pv'' t"
    "\<not> in_cooldown fresh_app ''car_charge_pv'' t" for t
    by (simp_all add: in_cooldown_def fresh_coordinator_def fresh_app_def)
  have s1: "send_smart_notification ?w1 scenario_cfg ''car_charge_pv'' ''erste Nachricht''
      fresh_coordinator
    = \<lparr>last_notification = [''car_charge_pv'' \<mapsto> 0], clock_reads = 1,
       service_calls = [notify_call scenario_cfg ''erste Nachricht'']\<rparr>"
    by (simp add: send_attempted fresh)
       (simp add: fresh_coordinator_def gate_world_def every_hours_def)
  have s3: "send_smart_notification ?w3 scenario_cfg ''car_charge_pv'' ''erste Nachricht''
      fresh_coordinator
    = \<lparr>last_notification = [''car_charge_pv'' \<mapsto> 0], clock_reads = 1,
       service_calls = [notify_call scenario_cfg ''erste Nachricht'']\<rparr>"
    by (simp add: send_attempted fresh)
       (simp add: fresh_coordinator_def gate_world_def every_hours_def)
  have a1: "app_send_smart_notification ?w1 ''car_charge_pv'' ''erste Nachricht'' fresh_app
    = fresh_app\<lparr>last_notification := [''car_charge_pv'' \<mapsto> 0], clock_reads := 1,
       service_calls := [app_notify_call ''erste Nachricht'']\<rparr>"
    by (simp add: app_send_attempted fresh)
       (simp add: fresh_app_def gate_world_def every_hours_def)
  have a3: "app_send_smart_notification ?w3 ''car_charge_pv'' ''erste Nachricht'' fresh_app
    = fresh_app\<lparr>last_notification := [''car_charge_pv'' \<mapsto> 0], clock_reads := 1,
       service_calls := [app_notify_call ''erste Nachricht'']\<rparr>"
    by (simp add: app_send_attempted fresh)
       (simp add: fresh_app_def gate_world_def every_hours_def)
  note one = gate_two_calls [where w = ?w1 and cfg = scenario_cfg and k = "''car_charge_pv''"
      and m = "''erste Nachricht''" and m' = "''zweite Nachricht''"
      and st = fresh_coordinator and ast = fresh_app, OF fresh(1) refl fresh(2) refl]
  note three = gate_two_calls [where w = ?w3 and cfg = scenario_cfg and k = "''car_charge_pv''"
      and m = "''erste Nachricht''" and m' = "''zweite Nachricht''"
      and st = fresh_coordinator and ast = fresh_app, OF fresh(1) refl fresh(2) refl]
  show ?thesis
    using one three unfolding s1 s3 a1 a3
    by (simp add: fresh_coordinator_def fresh_app_def gate_world_def every_hours_def
        timedelta_hours_def)
qed

text \<open>Claim C4 as stated puts no condition on the throttle state before the first
  call. With an entry for the identifier one hour before the first call and the two
  calls three hours apart, the first call is inside the cooldown of the earlier send
  and sends nothing; only the second call sends.\<close>

theorem gate_two_calls_earlier_send_counterexample:
  "last_notification (fresh_coordinator\<lparr>last_notification := [''car_charge_pv'' \<mapsto> 0]\<rparr>)
       ''car_charge_pv'' = Some 0
   \<and> later_clock 0 = timedelta_hours 1
   \<and> later_clock 1 - later_clock 0 > timedelta_hours 2
   \<and> send_smart_notification (gate_world later_clock (\<lambda>n. True)) scenario_cfg
        ''car_charge_pv'' ''erste Nachricht''
        (fresh_coordinator\<lparr>last_notification := [''car_charge_pv'' \<mapsto> 0]\<rparr>)
      = fresh_coordinator\<lparr>last_notification := [''car_charge_pv'' \<mapsto> 0], clock_reads := 1\<rparr>
   \<and> service_calls
        (send_smart_notification (gate_world later_clock (\<lambda>n. True)) scenario_cfg
           ''car_charge_pv'' ''zweite Nachricht''
           (send_smart_notification (gate_world later_clock (\<lambda>n. True)) scenario_cfg
              ''car_charge_pv'' ''erste Nachricht''
              (fresh_coordinator\<lparr>last_notification := [''car_charge_pv'' \<mapsto> 0]\<rparr>)))
      = [notify_call scenario_cfg ''zweite Nachricht'']
   \<and> app_send_smart_notification (gate_world later_clock (\<lambda>n. True))
        ''car_charge_pv'' ''erste Nachricht''
        (fresh_app\<lparr>last_notification := [''car_charge_pv'' \<mapsto> 0]\<rparr>)
      = fresh_app\<lparr>last_notification := [''car_charge_pv'' \<mapsto> 0], clock_reads := 1\<rparr>
   \<and> service_calls
        (app_send_smart_notification (gate_world later_clock (\<lambda>n. True))
           ''car_charge_pv'' ''zweite Nachricht''
           (app_send_smart_notification (gate_world later_clock (\<lambda>n. True))
              ''car_charge_pv'' ''erste Nachricht''
              (fresh_app\<lparr>last_notification := [''car_charge_pv'' \<mapsto> 0]\<rparr>)))
      = [app_notify_call ''zweite Nachricht'']"
  by (simp add: send_smart_notification_def app_send_smart_notification_def Let_def
      fresh_coordinator_def fresh_app_def gate_world_def later_clock_def timedelta_hours_def
      notify_call_def app_notify_call_def)

text \<open>Claim C5. When the host's notification call raises, the gate returns normally
  with the throttle entries as they were (only the attempt itself is on record), the
  executor's loop goes on with the remaining decisions from that state, and every
  remaining decision that asks for a notification still reaches the gate.\<close>

theorem send_failure_contained:
  assumes "notify d" and "details d = Some m" and "m \<noteq> []"
    and "\<not> in_cooldown st (action d) (now_at w (clock_reads st))"
    and "\<not> call_ok w (length (service_calls st))"
    and "\<not> in_cooldown ast (action d) (now_at w (clock_reads ast))"
    and "\<not> call_ok w (length (service_calls ast))"
  shows "send_smart_notification w cfg (action d) m st
           = st\<lparr>clock_reads := clock_reads st + 1,
                service_calls := service_calls st @ [notify_call cfg m]\<rparr>
       \<and> execute_loop w cfg (d # ds) st
           = execute_loop w cfg ds
               (st\<lparr>clock_reads := clock_reads st + 1,
                   service_calls := service_calls st @ [notify_call cfg m]\<rparr>)
       \<and> clock_reads (execute_loop w cfg (d # ds) st)
           = clock_reads st + 1 + length (filter notify_eligible ds)
       \<and> app_send_smart_notification w (action d) m ast
           = ast\<lparr>clock_reads := clock_reads ast + 1,
                 service_calls := service_calls ast @ [app_notify_call m]\<rparr>
       \<and> app_execute_loop w (d # ds) ast
           = app_execute_loop w ds
               (ast\<lparr>clock_reads := clock_reads ast + 1,
                    service_calls := service_calls ast @ [app_notify_call m]\<rparr>)
       \<and> clock_reads (app_execute_loop w (d # ds) ast)
           = clock_reads ast + 1 + length (filter notify_eligible ds)"
  using assms
  by (simp add: send_attempted app_send_attempted execute_loop_clock_reads
      app_execute_loop_clock_reads)

theorem send_failure_contained_witness:
  "execute_loop (gate_world (\<lambda>n. 0) (\<lambda>n. n \<noteq> 0)) scenario_cfg [demo_emergency, demo_cheap]
       fresh_coordinator
     = \<lparr>last_notification = [''car_charge_cheap'' \<mapsto> 0], clock_reads = 2,
        service_calls = [notify_call scenario_cfg ''Auto-Akku kritisch niedrig'',
                         notify_call scenario_cfg ''Jetzt laden empfohlen'']\<rparr>
   \<and> app_execute_loop (gate_world (\<lambda>n. 0) (\<lambda>n. n \<noteq> 0)) [demo_emergency, demo_cheap] fresh_app
     = fresh_app\<lparr>last_notification := [''car_charge_cheap'' \<mapsto> 0], clock_reads := 2,
        service_calls := [app_notify_call ''Auto-Akku kritisch niedrig'',
                          app_notify_call ''Jetzt laden empfohlen'']\<rparr>"
proof -
  let ?w = "gate_world (\<lambda>n. 0) (\<lambda>n. n \<noteq> 0)"
  have fresh: "\<not> in_cooldown fresh_coordinator k t" "\<not> in_cooldown fresh_app k t" for k t
    by (simp_all add: in_cooldown_def fresh_coordinator_def fresh_app_def)
  have fails: "\<not> call_ok ?w (length (service_calls fresh_coordinator))"
    "\<not> call_ok ?w (length (service_calls fresh_app))"
    by (simp_all add: gate_world_def fresh_coordinator_def fresh_app_def)
  have d: "notify demo_emergency"
    "details demo_emergency = Some ''Auto-Akku kritisch niedrig''"
    "''Auto-Akku kritisch niedrig'' \<noteq> []"
    by (simp_all add: demo_emergency_def)
  note step = send_failure_contained [where d = demo_emergency and ds = "[demo_cheap]"
      and w = ?w and cfg = scenario_cfg and st = fresh_coordinator and ast = fresh_app,
      OF d fresh(1) fails(1) fresh(2) fails(2)]
  show ?thesis
    using step
    by (simp add: send_smart_notification_def app_send_smart_notification_def Let_def
        demo_cheap_def fresh_coordinator_def fresh_app_def gate_world_def timedelta_hours_def
        notify_call_def app_notify_call_def)
qed

text \<open>Claim C10. The cooldown comparison is strict: with an entry for the action
  identifier, the gate sends when the time since that entry is two hours or more, and
  two hours exactly is enough; it suppresses only when the time is strictly less.\<close>

theorem cooldown_strict:
  assumes "last_notification st k = Some l" and "last_notification ast k = Some l'"
  shows "(now_at w (clock_reads st) - l \<ge> timedelta_hours 2 \<longrightarrow>
            service_calls (send_smart_notification w cfg k m st)
              = service_calls st @ [notify_call cfg m])
       \<and> (now_at w (clock_reads st) - l < timedelta_hours 2 \<longrightarrow>
            service_calls (send_smart_notification w cfg k m st) = service_calls st)
       \<and> (now_at w (clock_reads ast) - l' \<ge> timedelta_hours 2 \<longrightarrow>
            service_calls (app_send_smart_notification w k m ast)
              = service_calls ast @ [app_notify_call m])
       \<and> (now_at w (clock_reads ast) - l' < timedelta_hours 2 \<longrightarrow>
            service_calls (app_send_smart_notification w k m ast) = service_calls ast)"
proof -
  have c: "in_cooldown st k (now_at w (clock_reads st))
      \<longleftrightarrow> now_at w (clock_reads st) - l < timedelta_hours 2"
    using assms(1) by (simp add: in_cooldown_def)
  have a: "in_cooldown ast k (now_at w (clock_reads ast))
      \<longleftrightarrow> now_at w (clock_reads ast) - l' < timedelta_hours 2"
    using assms(2) by (simp add: in_cooldown_def)
  show ?thesis
    using c a
    by (auto simp add: send_suppressed send_attempted app_send_suppressed app_send_attempted)
qed

theorem cooldown_strict_witness:
  "timedelta_hours 2 = 7200000000
   \<and> service_calls (send_smart_notification (gate_world (\<lambda>n. 7200000000) (\<lambda>n. True)) scenario_cfg
          ''car_charge_pv'' ''Laden empfohlen''
          (fresh_coordinator\<lparr>last_notification := [''car_charge_pv'' \<mapsto> 0]\<rparr>))
       = [Async_call ''notify'' ''mobile_app_dein_smartphone'' ''Laden empfohlen'' ''Energiemanager'']
   \<and> service_calls (send_smart_notification (gate_world (\<lambda>n. 7199999999) (\<lambda>n. True)) scenario_cfg
          ''car_charge_pv'' ''Laden empfohlen''
          (fresh_coordinator\<lparr>last_notification := [''car_charge_pv'' \<mapsto> 0]\<rparr>))
       = []
   \<and> service_calls (app_send_smart_notification (gate_world (\<lambda>n. 7200000000) (\<lambda>n. True))
          ''car_charge_pv'' ''Laden empfohlen''
          (fresh_app\<lparr>last_notification := [''car_charge_pv'' \<mapsto> 0]\<rparr>))
       = [Call_service ''notify/mobile_app_dein_smartphone'' ''Laden empfohlen''
            (chr_bolt @ '' Energiemanager'')]
   \<and> service_calls (app_send_smart_notification (gate_world (\<lambda>n. 7199999999) (\<lambda>n. True))
          ''car_charge_pv'' ''Laden empfohlen''
          (fresh_app\<lparr>last_notification := [''car_charge_pv'' \<mapsto> 0]\<rparr>))
       = []"
  using cooldown_strict [of "fresh_coordinator\<lparr>last_notification := [''car_charge_pv'' \<mapsto> 0]\<rparr>"
      "''car_charge_pv''" 0 "fresh_app\<lparr>last_notification := [''car_charge_pv'' \<mapsto> 0]\<rparr>" 0
      "gate_world (\<lambda>n. 7200000000) (\<lambda>n. True)" scenario_cfg "''Laden empfohlen''"]
    cooldown_strict [of "fresh_coordinator\<lparr>last_notification := [''car_charge_pv'' \<mapsto> 0]\<rparr>"
      "''car_charge_pv''" 0 "fresh_app\<lparr>last_notification := [''car_charge_pv'' \<mapsto> 0]\<rparr>" 0
      "gate_world (\<lambda>n. 7199999999) (\<lambda>n. True)" scenario_cfg "''Laden empfohlen''"]
  by (simp add: fresh_coordinator_def fresh_app_def gate_world_def timedelta_hours_def
      notify_call_def app_notify_call_def scenario_cfg_def DEFAULT_notify_service_def
      CONFIG_notify_service_def split_once_def replace_first_def)

section \<open>Read failure\<close>

lemma entity_float_None:
  "entity_float float_of w cfg key = None \<longleftrightarrow> read_raises (entities cfg) w key"
  by (simp add: entity_float_def safe_float_def read_raises_def
      split: option.splits host_read.splits)

lemma entity_bool_None:
  "entity_bool w cfg key = None \<longleftrightarrow> read_raises (entities cfg) w key"
  by (simp add: entity_bool_def safe_bool_def read_raises_def
      split: option.splits host_read.splits)

lemma read_sensors_None:
  "read_sensors float_of w cfg = None \<longleftrightarrow> (\<exists>key \<in> set sensor_keys. read_raises (entities cfg) w key)"
  unfolding read_sensors_def sensor_keys_def
  by (simp add: bind_eq_None_conv Let_def entity_float_None entity_bool_None)

lemma app_entity_float_None:
  "app_entity_float float_of w key = None \<longleftrightarrow> read_raises CONFIG_entities w key"
  by (simp add: app_entity_float_def app_safe_float_def read_raises_def
      split: option.splits host_read.splits)

lemma app_entity_bool_None:
  "(case CONFIG_entities key of None \<Rightarrow> None | Some entity_id \<Rightarrow> app_safe_bool w entity_id) = None
     \<longleftrightarrow> read_raises CONFIG_entities w key"
  by (simp add: app_safe_bool_def read_raises_def split: option.splits host_read.splits)

lemma app_read_price_level_None:
  "app_read_price_level w = None \<longleftrightarrow> read_raises CONFIG_entities w ''price_level''"
  by (simp add: app_read_price_level_def read_raises_def split: option.splits host_read.splits)

lemma app_read_sensors_None:
  "app_read_sensors float_of w = None \<longleftrightarrow> (\<exists>key \<in> set app_sensor_keys. read_raises CONFIG_entities w key)"
  unfolding app_read_sensors_def app_sensor_keys_def
  by (simp add: bind_eq_None_conv Let_def app_entity_float_None app_entity_bool_None
      app_read_price_level_None)

lemma get_system_state_None:
  "fst (get_system_state float_of w cfg st) = None \<longleftrightarrow> read_sensors float_of w cfg = None"
  by (simp add: get_system_state_def Let_def split: option.splits)

lemma app_get_system_state_None:
  "fst (app_get_system_state float_of w st) = None \<longleftrightarrow> app_read_sensors float_of w = None"
  by (simp add: app_get_system_state_def Let_def split: option.splits)

text \<open>Claim C6. The normalizer returns no state exactly when one of its reads raises,
  and it returns rather than raising. The orchestrator then skips the run: the
  integration's \<^verbatim>\<open>_async_update_data\<close> raises \<^verbatim>\<open>UpdateFailed\<close> and the app's
  \<^verbatim>\<open>run_energy_manager\<close> returns, in both cases with the process state as it
  was, so no rule has been evaluated and no notification attempted.\<close>

theorem read_failure_skips_run:
  "(fst (get_system_state float_of w cfg st) = None)
      = (\<exists>key \<in> set sensor_keys. read_raises (entities cfg) w key)
   \<and> ((\<exists>key \<in> set sensor_keys. read_raises (entities cfg) w key) \<longrightarrow>
        get_system_state float_of w cfg st = (None, st)
        \<and> async_update_data float_of fmt w cfg st
            = (Inl (UpdateFailed ''Konnte Systemzustand nicht lesen''), st))
   \<and> (fst (app_get_system_state float_of w ast) = None)
      = (\<exists>key \<in> set app_sensor_keys. read_raises CONFIG_entities w key)
   \<and> ((\<exists>key \<in> set app_sensor_keys. read_raises CONFIG_entities w key) \<longrightarrow>
        app_get_system_state float_of w ast = (None, ast)
        \<and> run_energy_manager float_of fmt w ast = ast)"
proof -
  have a: "get_system_state float_of w cfg st = (None, st)
      \<and> async_update_data float_of fmt w cfg st
            = (Inl (UpdateFailed ''Konnte Systemzustand nicht lesen''), st)"
    if "read_sensors float_of w cfg = None"
    using that by (simp add: get_system_state_def async_update_data_def)
  have b: "app_get_system_state float_of w ast = (None, ast)
      \<and> run_energy_manager float_of fmt w ast = ast"
    if "app_read_sensors float_of w = None"
    using that by (simp add: app_get_system_state_def run_energy_manager_def)
  show ?thesis
    using a b
    by (simp only: get_system_state_None app_get_system_state_None read_sensors_None
        app_read_sensors_None) blast
qed

theorem read_failure_skips_run_witness:
  "read_raises (entities scenario_cfg) (gate_world (\<lambda>n. 0) (\<lambda>n. True)) ''pv_forecast_tomorrow''
   \<and> async_update_data literal_float no_format (gate_world (\<lambda>n. 0) (\<lambda>n. True)) scenario_cfg
        fresh_coordinator
      = (Inl (UpdateFailed ''Konnte Systemzustand nicht lesen''), fresh_coordinator)
   \<and> read_raises CONFIG_entities broken_world ''pv_power''
   \<and> run_energy_manager literal_float no_format broken_world fresh_app = fresh_app"
proof -
  have k: "read_raises (entities scenario_cfg) (gate_world (\<lambda>n. 0) (\<lambda>n. True)) ''pv_forecast_tomorrow''"
    by (simp add: read_raises_def scenario_cfg_def DEFAULT_entities_def)
  have ak: "read_raises CONFIG_entities broken_world ''pv_power''"
    by (simp add: read_raises_def CONFIG_entities_def broken_world_def)
  have 1: "\<exists>key \<in> set sensor_keys.
      read_raises (entities scenario_cfg) (gate_world (\<lambda>n. 0) (\<lambda>n. True)) key"
    using k by (simp add: sensor_keys_def)
  have 2: "\<exists>key \<in> set app_sensor_keys. read_raises CONFIG_entities broken_world key"
    using ak by (simp add: app_sensor_keys_def)
  show ?thesis
    using k ak 1 2
      read_failure_skips_run [of literal_float "gate_world (\<lambda>n. 0) (\<lambda>n. True)" scenario_cfg
        fresh_coordinator no_format fresh_app]
      read_failure_skips_run [of literal_float broken_world scenario_cfg
        fresh_coordinator no_format fresh_app]
    by simp
qed

section \<open>Price-change event\<close>

text \<open>When the two callbacks ask for a run.\<close>

lemma on_price_change_iff:
  "on_price_change float_of ev = RunTriggered \<longleftrightarrow>
    (\<exists>nv ov np op. new_state ev = Some nv \<and> old_state ev = Some ov
       \<and> ov \<noteq> ''unavailable'' \<and> ov \<noteq> ''unknown''
       \<and> float_of nv = Some np \<and> float_of ov = Some op \<and> \<bar>np - op\<bar> > 0.02)"
  by (auto simp add: on_price_change_def Let_def split: option.splits sum.splits if_splits)

lemma app_on_price_change_iff:
  "fst (app_on_price_change float_of fmt w old new st) = RunTriggered \<longleftrightarrow>
    (\<exists>nv ov np op. new = Some nv \<and> old = Some ov \<and> ov \<noteq> ''unavailable''
       \<and> float_of nv = Some np \<and> float_of ov = Some op \<and> op \<noteq> 0 \<and> \<bar>np - op\<bar> > 2.0)"
  by (auto simp add: app_on_price_change_def Let_def split: option.splits sum.splits if_splits)

text \<open>Claim C9 at the event with old state \<^verbatim>\<open>0.0\<close> and new state \<^verbatim>\<open>5.0\<close>: the
  app's callback, whose threshold is 2.0, makes no run, because the old price 0.0 is
  false as a truth value; the integration's callback, whose threshold is 0.02, asks
  for the run.\<close>

theorem app_on_price_change_zero_old_price:
  "app_on_price_change literal_float fmt w (Some ''0.0'') (Some ''5.0'') st = (NoRun, st)
   \<and> on_price_change literal_float \<lparr>new_state = Some ''5.0'', old_state = Some ''0.0''\<rparr>
       = RunTriggered"
  by (simp add: app_on_price_change_def on_price_change_def literal_float_def)

end
